theory Spec2Isabelle
  imports Main
begin

section \<open>Data model\<close>

text \<open>
  The client is the module \<^verbatim>\<open>services/api\<close> (token service, the two interceptors of
  the \<^verbatim>\<open>api\<close> instance, the domain facade) and \<^verbatim>\<open>context/AuthContext.tsx\<close> (the session
  manager). JavaScript values that may be \<^verbatim>\<open>null\<close> or \<^verbatim>\<open>undefined\<close> are options; a value
  is truthy when it is a non-empty string.
\<close>

record User =
  user_id :: string
  user_name :: string
  user_email :: string
  user_created_at :: string

text \<open>
  \<^verbatim>\<open>response.data\<close>: the fields of a response body that the client reads. A field the
  backend left out, or one that is not a string, reads as \<open>None\<close>. The \<open>data\<close> of a
  response is \<open>None\<close> when the body is \<^verbatim>\<open>null\<close>, so that reading a field of it throws.
\<close>

record payload =
  p_user :: "User option"
  p_access_token :: "string option"
  p_refresh_token :: "string option"

record response =
  status :: nat
  data :: "payload option"

datatype http_method = GET | POST

text \<open>
  A request configuration. \<open>retry\<close> is the \<^verbatim>\<open>_retry\<close> marker (\<^verbatim>\<open>undefined\<close> reads as
  \<open>False\<close>); \<open>headers\<close> is the headers object, a map from header names to values.
\<close>

record request =
  http_method :: http_method
  baseURL :: string
  url :: string
  headers :: "string \<rightharpoonup> string"
  body :: "(string \<times> string) list"
  retry :: bool

text \<open>An \<^verbatim>\<open>AxiosError\<close>: \<open>response\<close> is absent when no reply arrived.\<close>

record axios_error =
  config :: "request option"
  response :: "response option"

datatype error = AxiosError axios_error | TypeError | StoreError

text \<open>
  The world outside the module. \<open>secure\<close> is the content of the platform's secure store.
  Each native store call takes the next entry of its fault tape: \<open>True\<close> makes the call
  throw, an empty tape means no fault. \<open>net\<close> is the sequence of outcomes the backend
  gives to the requests put on the wire, in order; \<open>wire\<close> records those requests, oldest
  first, with the axios instance that sent them.
\<close>

datatype outcome = NoReply | Reply response

datatype axios_instance = Global | Api

record world =
  secure :: "string \<rightharpoonup> string"
  read_faults :: "bool list"
  write_faults :: "bool list"
  delete_faults :: "bool list"
  net :: "outcome list"
  wire :: "(axios_instance \<times> request) list"

definition API_BASE_URL :: string where
  "API_BASE_URL = ''http://10.0.2.2:5000''"

definition ACCESS_TOKEN_KEY :: string where
  "ACCESS_TOKEN_KEY = ''access_token''"

definition REFRESH_TOKEN_KEY :: string where
  "REFRESH_TOKEN_KEY = ''refresh_token''"

definition truthy :: "string option \<Rightarrow> bool" where
  "truthy v = (case v of None \<Rightarrow> False | Some s \<Rightarrow> s \<noteq> [])"

text \<open>A value inside a template literal: \<^verbatim>\<open>`${undefined}`\<close> is the text \<^verbatim>\<open>undefined\<close>.\<close>

definition template :: "string option \<Rightarrow> string" where
  "template v = (case v of None \<Rightarrow> ''undefined'' | Some s \<Rightarrow> s)"

text \<open>\<^verbatim>\<open>v || ''\<close>\<close>

definition or_empty :: "string option \<Rightarrow> string" where
  "or_empty v = (if truthy v then template v else [])"

section \<open>The secure store\<close>

text \<open>
  Modelled from the spec: the secure token store, the library \<^verbatim>\<open>expo-secure-store\<close>, which
  is not part of the repository. It is an opaque get, set and delete of string secrets
  by key, and each call may fail: \<^verbatim>\<open>getItemAsync\<close> resolves to the stored value or
  \<^verbatim>\<open>null\<close>; \<^verbatim>\<open>setItemAsync\<close> stores a string, and as in the library throws on a value that
  is not a string before it touches the store; \<^verbatim>\<open>deleteItemAsync\<close> removes the key and
  accepts a missing one.
\<close>

definition getItemAsync :: "world \<Rightarrow> string \<Rightarrow> (error + string option) \<times> world" where
  "getItemAsync w key =
     (case read_faults w of
        [] \<Rightarrow> (Inr (secure w key), w)
      | f # fs \<Rightarrow>
          (if f then Inl StoreError else Inr (secure w key), w\<lparr>read_faults := fs\<rparr>))"

definition setItemAsync :: "world \<Rightarrow> string \<Rightarrow> string option \<Rightarrow> (error + unit) \<times> world" where
  "setItemAsync w key val =
     (case val of
        None \<Rightarrow> (Inl StoreError, w)
      | Some v \<Rightarrow>
          (case write_faults w of
             [] \<Rightarrow> (Inr (), w\<lparr>secure := (secure w)(key \<mapsto> v)\<rparr>)
           | f # fs \<Rightarrow>
               (if f then (Inl StoreError, w\<lparr>write_faults := fs\<rparr>)
                else (Inr (), w\<lparr>secure := (secure w)(key \<mapsto> v), write_faults := fs\<rparr>))))"

definition deleteItemAsync :: "world \<Rightarrow> string \<Rightarrow> (error + unit) \<times> world" where
  "deleteItemAsync w key =
     (case delete_faults w of
        [] \<Rightarrow> (Inr (), w\<lparr>secure := (secure w)(key := None)\<rparr>)
      | f # fs \<Rightarrow>
          (if f then (Inl StoreError, w\<lparr>delete_faults := fs\<rparr>)
           else (Inr (), w\<lparr>secure := (secure w)(key := None), delete_faults := fs\<rparr>)))"

section \<open>TokenService\<close>

definition getAccessToken :: "world \<Rightarrow> string option \<times> world" where
  "getAccessToken w =
     (case getItemAsync w ACCESS_TOKEN_KEY of
        (Inr v, w') \<Rightarrow> (v, w')
      | (Inl _, w') \<Rightarrow> (None, w'))"

definition getRefreshToken :: "world \<Rightarrow> string option \<times> world" where
  "getRefreshToken w =
     (case getItemAsync w REFRESH_TOKEN_KEY of
        (Inr v, w') \<Rightarrow> (v, w')
      | (Inl _, w') \<Rightarrow> (None, w'))"

definition setTokens :: "world \<Rightarrow> string option \<Rightarrow> string option \<Rightarrow> (error + unit) \<times> world" where
  "setTokens w accessToken refreshToken =
     (case setItemAsync w ACCESS_TOKEN_KEY accessToken of
        (Inl e, w') \<Rightarrow> (Inl e, w')
      | (Inr _, w') \<Rightarrow> setItemAsync w' REFRESH_TOKEN_KEY refreshToken)"

definition clearTokens :: "world \<Rightarrow> (error + unit) \<times> world" where
  "clearTokens w =
     (case deleteItemAsync w ACCESS_TOKEN_KEY of
        (Inl e, w') \<Rightarrow> (Inl e, w')
      | (Inr _, w') \<Rightarrow> deleteItemAsync w' REFRESH_TOKEN_KEY)"

section \<open>The transport and the interceptors\<close>

text \<open>
  Modelled from the spec: the HTTP transport, the library \<^verbatim>\<open>axios\<close>, which is not part of
  the repository. Once the request interceptors have run, the request goes on the
  wire; the promise resolves for a status in 200..299 and rejects with an
  \<^verbatim>\<open>AxiosError\<close> carrying the request's configuration otherwise (without a response when
  no reply arrived, as on a network error or after the timeout).
\<close>

definition transport :: "axios_instance \<Rightarrow> world \<Rightarrow> request \<Rightarrow> (axios_error + response) \<times> world" where
  "transport i w cfg =
     (let w' = w\<lparr>wire := wire w @ [(i, cfg)]\<rparr> in
      case net w of
        [] \<Rightarrow> (Inl \<lparr>config = Some cfg, response = None\<rparr>, w')
      | NoReply # rest \<Rightarrow> (Inl \<lparr>config = Some cfg, response = None\<rparr>, w'\<lparr>net := rest\<rparr>)
      | Reply r # rest \<Rightarrow>
          (if 200 \<le> status r \<and> status r < 300 then (Inr r, w'\<lparr>net := rest\<rparr>)
           else (Inl \<lparr>config = Some cfg, response = Some r\<rparr>, w'\<lparr>net := rest\<rparr>)))"

text \<open>\<^verbatim>\<open>axios.post(url, data)\<close> on the global instance, which has no interceptors.\<close>

definition axios_post :: "world \<Rightarrow> string \<Rightarrow> (string \<times> string) list \<Rightarrow> (axios_error + response) \<times> world" where
  "axios_post w u d =
     transport Global w
       \<lparr>http_method = POST, baseURL = [], url = u, headers = Map.empty, body = d, retry = False\<rparr>"

text \<open>The request interceptor of \<^verbatim>\<open>api\<close>.\<close>

definition request_interceptor :: "world \<Rightarrow> request \<Rightarrow> request \<times> world" where
  "request_interceptor w cfg =
     (case getAccessToken w of
        (token, w') \<Rightarrow>
          (if truthy token
           then (cfg\<lparr>headers := (headers cfg)(''Authorization'' \<mapsto> ''Bearer '' @ template token)\<rparr>, w')
           else (cfg, w')))"

text \<open>
  The \<^verbatim>\<open>catch\<close> block of the response interceptor followed by the final
  \<^verbatim>\<open>Promise.reject(error)\<close>: a throw of \<^verbatim>\<open>clearTokens\<close> leaves the handler instead.
\<close>

definition refresh_failed :: "world \<Rightarrow> axios_error \<Rightarrow> (error + response) \<times> world" where
  "refresh_failed w err =
     (case clearTokens w of
        (Inl e, w') \<Rightarrow> (Inl e, w')
      | (Inr _, w') \<Rightarrow> (Inl (AxiosError err), w'))"

definition status_of :: "axios_error \<Rightarrow> nat option" where
  "status_of err = map_option status (response err)"

definition retry_of :: "request option \<Rightarrow> bool" where
  "retry_of c = (case c of None \<Rightarrow> False | Some r \<Rightarrow> retry r)"

text \<open>
  \<open>api\<close> is a call of the \<^verbatim>\<open>api\<close> instance with a configuration: the request
  interceptor, the transport, and the response interceptor, whose fulfilled handler is
  the identity and whose rejected handler is \<open>response_rejected\<close>. The handler sets
  \<^verbatim>\<open>_retry\<close> on \<^verbatim>\<open>error.config\<close> itself, so the error it rejects with carries the marker.
  \<^verbatim>\<open>return api(originalRequest)\<close> is outside the reach of the \<^verbatim>\<open>catch\<close>: the outcome of
  the resubmission is the outcome of the handler. Setting \<^verbatim>\<open>_retry\<close> on an absent
  configuration throws before the \<^verbatim>\<open>try\<close> block; past that line \<^verbatim>\<open>if (originalRequest)\<close>
  holds. The recursion ends because the resubmitted request carries the marker.
\<close>

function api :: "world \<Rightarrow> request \<Rightarrow> (error + response) \<times> world"
  and response_rejected :: "world \<Rightarrow> axios_error \<Rightarrow> (error + response) \<times> world"
where
  "api w cfg =
     (case request_interceptor w cfg of
        (cfg', w1) \<Rightarrow>
          (case transport Api w1 cfg' of
             (Inr resp, w2) \<Rightarrow> (Inr resp, w2)
           | (Inl err, w2) \<Rightarrow> response_rejected w2 err))"
| "response_rejected w err =
     (if status_of err = Some 401 \<and> \<not> retry_of (config err) then
        (case config err of
           None \<Rightarrow> (Inl TypeError, w)
         | Some cfg \<Rightarrow>
             (let originalRequest = cfg\<lparr>retry := True\<rparr>;
                  err' = err\<lparr>config := Some originalRequest\<rparr> in
              case getRefreshToken w of
                (refreshToken, w1) \<Rightarrow>
                  if truthy refreshToken then
                    (case axios_post w1 (API_BASE_URL @ ''/auth/refresh'')
                            [(''refresh_token'', template refreshToken)] of
                       (Inl _, w2) \<Rightarrow> refresh_failed w2 err'
                     | (Inr resp, w2) \<Rightarrow>
                         (case data resp of
                            None \<Rightarrow> refresh_failed w2 err'
                          | Some d \<Rightarrow>
                              (case getRefreshToken w2 of
                                 (currentRefreshToken, w3) \<Rightarrow>
                                   (case setTokens w3 (p_access_token d)
                                           (Some (or_empty currentRefreshToken)) of
                                      (Inl _, w4) \<Rightarrow> refresh_failed w4 err'
                                    | (Inr _, w4) \<Rightarrow>
                                        api w4 (originalRequest\<lparr>headers :=
                                          (headers originalRequest)(''Authorization'' \<mapsto>
                                             ''Bearer '' @ template (p_access_token d))\<rparr>)))))
                  else (Inl (AxiosError err'), w1)))
      else (Inl (AxiosError err), w))"
  by pat_completeness auto
termination
proof (relation "measure (\<lambda>x. case x of
            Inl (w, cfg) \<Rightarrow> (if retry cfg then 1 else 3)
          | Inr (w, err) \<Rightarrow> (if retry_of (config err) then 0 else 2))")
  show "wf (measure (\<lambda>x. case x of
            Inl (w, cfg) \<Rightarrow> (if retry cfg then 1 else 3)
          | Inr (w, err) \<Rightarrow> (if retry_of (config err) then 0 else (2::nat))))"
    by simp
qed (auto simp: transport_def request_interceptor_def retry_of_def Let_def
    split: list.splits outcome.splits if_splits prod.splits)

declare api.simps [simp del] response_rejected.simps [simp del]

text \<open>
  A call of \<^verbatim>\<open>api.post\<close> or \<^verbatim>\<open>api.get\<close> builds the configuration from the instance's
  defaults (base URL and content type).
\<close>

definition api_config :: "http_method \<Rightarrow> string \<Rightarrow> (string \<times> string) list \<Rightarrow> request" where
  "api_config m u d =
     \<lparr>http_method = m, baseURL = API_BASE_URL, url = u,
      headers = [''Content-Type'' \<mapsto> ''application/json''], body = d, retry = False\<rparr>"

definition api_post :: "world \<Rightarrow> string \<Rightarrow> (string \<times> string) list \<Rightarrow> (error + response) \<times> world" where
  "api_post w u d = api w (api_config POST u d)"

definition api_get :: "world \<Rightarrow> string \<Rightarrow> (error + response) \<times> world" where
  "api_get w u = api w (api_config GET u [])"

section \<open>AuthAPI\<close>

text \<open>
  Reading \<^verbatim>\<open>response.data.access_token\<close> when the response has no body throws a
  \<^verbatim>\<open>TypeError\<close>.
\<close>

definition AuthAPI_login :: "world \<Rightarrow> string \<Rightarrow> string \<Rightarrow> (error + payload) \<times> world" where
  "AuthAPI_login w email password =
     (case api_post w ''/auth/login'' [(''email'', email), (''password'', password)] of
        (Inl e, w1) \<Rightarrow> (Inl e, w1)
      | (Inr resp, w1) \<Rightarrow>
          (case data resp of
             None \<Rightarrow> (Inl TypeError, w1)
           | Some d \<Rightarrow>
               (case setTokens w1 (p_access_token d) (p_refresh_token d) of
                  (Inl e, w2) \<Rightarrow> (Inl e, w2)
                | (Inr _, w2) \<Rightarrow> (Inr d, w2))))"

definition AuthAPI_getProfile :: "world \<Rightarrow> (error + payload option) \<times> world" where
  "AuthAPI_getProfile w =
     (case api_get w ''/auth/me'' of
        (Inl e, w1) \<Rightarrow> (Inl e, w1)
      | (Inr resp, w1) \<Rightarrow> (Inr (data resp), w1))"

text \<open>\<^verbatim>\<open>try { ... } finally { ... }\<close>: the block's error leaves the function after the
  \<^verbatim>\<open>finally\<close> block has run, unless that block throws itself.\<close>

definition AuthAPI_logout :: "world \<Rightarrow> (error + unit) \<times> world" where
  "AuthAPI_logout w =
     (case api_post w ''/auth/logout'' [] of
        (r, w1) \<Rightarrow>
          (case clearTokens w1 of
             (Inl e, w2) \<Rightarrow> (Inl e, w2)
           | (Inr _, w2) \<Rightarrow>
               (case r of Inl e \<Rightarrow> (Inl e, w2) | Inr _ \<Rightarrow> (Inr (), w2))))"

section \<open>The session manager (AuthProvider)\<close>

text \<open>
  The two pieces of React state, with the calls of their setters in order.
\<close>

datatype update = SetUser "User option" | SetIsLoading bool

record session =
  user :: "User option"
  isLoading :: bool
  updates :: "update list"

definition initial_session :: session where
  "initial_session = \<lparr>user = None, isLoading = True, updates = []\<rparr>"

definition setUser :: "User option \<Rightarrow> session \<Rightarrow> session" where
  "setUser u s = s\<lparr>user := u, updates := updates s @ [SetUser u]\<rparr>"

definition setIsLoading :: "bool \<Rightarrow> session \<Rightarrow> session" where
  "setIsLoading b s = s\<lparr>isLoading := b, updates := updates s @ [SetIsLoading b]\<rparr>"

definition isAuthenticated :: "session \<Rightarrow> bool" where
  "isAuthenticated s = (user s \<noteq> None)"

text \<open>
  \<open>checkAuth\<close>: the inner case is the \<^verbatim>\<open>try\<close> block, the outer one the \<^verbatim>\<open>catch\<close> and
  \<^verbatim>\<open>finally\<close> blocks. \<^verbatim>\<open>response.user\<close> on a profile without a body throws inside the
  \<^verbatim>\<open>try\<close>.
\<close>

definition checkAuth :: "world \<Rightarrow> session \<Rightarrow> (error + unit) \<times> world \<times> session" where
  "checkAuth w s =
     (case (case getAccessToken w of
              (token, w1) \<Rightarrow>
                if truthy token then
                  (case AuthAPI_getProfile w1 of
                     (Inl e, w2) \<Rightarrow> (Inl e, w2, s)
                   | (Inr None, w2) \<Rightarrow> (Inl TypeError, w2, s)
                   | (Inr (Some resp), w2) \<Rightarrow> (Inr (), w2, setUser (p_user resp) s))
                else (Inr (), w1, s))
      of
        (Inr _, w', s') \<Rightarrow> (Inr (), w', setIsLoading False s')
      | (Inl _, w', s') \<Rightarrow>
          (case clearTokens w' of
             (Inl e, w'') \<Rightarrow> (Inl e, w'', setIsLoading False s')
           | (Inr _, w'') \<Rightarrow> (Inr (), w'', setIsLoading False (setUser None s'))))"

definition login :: "world \<Rightarrow> session \<Rightarrow> string \<Rightarrow> string \<Rightarrow> (error + unit) \<times> world \<times> session" where
  "login w s email password =
     (case AuthAPI_login w email password of
        (Inl e, w') \<Rightarrow> (Inl e, w', s)
      | (Inr resp, w') \<Rightarrow> (Inr (), w', setUser (p_user resp) s))"

definition logout :: "world \<Rightarrow> session \<Rightarrow> (error + unit) \<times> world \<times> session" where
  "logout w s =
     (case AuthAPI_logout w of
        (Inl e, w') \<Rightarrow> (Inl e, w', s)
      | (Inr _, w') \<Rightarrow> (Inr (), w', setUser None s))"

section \<open>Observations\<close>

text \<open>The next read of the secure store throws.\<close>

definition read_fails :: "world \<Rightarrow> bool" where
  "read_fails w = (case read_faults w of [] \<Rightarrow> False | f # _ \<Rightarrow> f)"

text \<open>The requests put on the wire between two worlds.\<close>

definition sent_since :: "world \<Rightarrow> world \<Rightarrow> (axios_instance \<times> request) list" where
  "sent_since w w' = drop (length (wire w)) (wire w')"

text \<open>The configuration that \<^verbatim>\<open>axios.post\<close> builds for the refresh call with token \<open>t\<close>.\<close>

definition refresh_request :: "string \<Rightarrow> request" where
  "refresh_request t =
     \<lparr>http_method = POST, baseURL = [], url = API_BASE_URL @ ''/auth/refresh'',
      headers = Map.empty, body = [(''refresh_token'', t)], retry = False\<rparr>"

text \<open>The first request put on the wire between two worlds: instance, method, URL, body.\<close>

definition first_sent ::
  "world \<Rightarrow> world \<Rightarrow> (axios_instance \<times> http_method \<times> string \<times> (string \<times> string) list) option" where
  "first_sent w w' =
     (case sent_since w w' of
        [] \<Rightarrow> None
      | (i, r) # _ \<Rightarrow> Some (i, http_method r, url r, body r))"

text \<open>
  Requests sent on the global instance are refresh calls; requests sent on \<^verbatim>\<open>api\<close> are
  submissions of a caller's request, first ones or marked resubmissions.
\<close>

definition refresh_calls :: "(axios_instance \<times> request) list \<Rightarrow> nat" where
  "refresh_calls evs = length (filter (\<lambda>(i, r). i = Global) evs)"

definition resubmissions :: "(axios_instance \<times> request) list \<Rightarrow> nat" where
  "resubmissions evs = length (filter (\<lambda>(i, r). i = Api \<and> retry r) evs)"

definition submissions :: "(axios_instance \<times> request) list \<Rightarrow> nat" where
  "submissions evs = length (filter (\<lambda>(i, r). i = Api \<and> \<not> retry r) evs)"

text \<open>
  A \<^verbatim>\<open>POST /auth/refresh\<close> whose body is a non-empty refresh token, without an
  \<^verbatim>\<open>Authorization\<close> header and without the retry marker.
\<close>

definition is_refresh_call :: "request \<Rightarrow> bool" where
  "is_refresh_call r =
     (http_method r = POST \<and> url r = API_BASE_URL @ ''/auth/refresh'' \<and>
      (case body r of [(k, t)] \<Rightarrow> k = ''refresh_token'' \<and> t \<noteq> [] | _ \<Rightarrow> False) \<and>
      headers r ''Authorization'' = None \<and> \<not> retry r)"

text \<open>
  The next outcome on the net makes a refresh call fail: no reply, a status outside
  200..299, or a reply without a body or without an \<^verbatim>\<open>access_token\<close> field.
\<close>

definition refresh_fails :: "outcome list \<Rightarrow> bool" where
  "refresh_fails outs =
     (case outs of
        [] \<Rightarrow> True
      | NoReply # _ \<Rightarrow> True
      | Reply r # _ \<Rightarrow>
          status r < 200 \<or> 300 \<le> status r \<or>
          (case data r of None \<Rightarrow> True | Some d \<Rightarrow> p_access_token d = None))"

text \<open>What the rejected handler may put on the wire.\<close>

inductive handler_traffic :: "(axios_instance \<times> request) list \<Rightarrow> bool" where
  quiet: "handler_traffic []"
| refreshed: "t \<noteq> [] \<Longrightarrow> handler_traffic [(Global, refresh_request t)]"
| resubmitted: "t \<noteq> [] \<Longrightarrow> retry c \<Longrightarrow> handler_traffic [(Global, refresh_request t), (Api, c)]"

text \<open>The calls of \<^verbatim>\<open>setIsLoading\<close> among a list of updates, and the updates made between
  two session states.\<close>

definition loading_updates :: "update list \<Rightarrow> update list" where
  "loading_updates us = filter (\<lambda>u. case u of SetIsLoading _ \<Rightarrow> True | SetUser _ \<Rightarrow> False) us"

definition updates_since :: "session \<Rightarrow> session \<Rightarrow> update list" where
  "updates_since s s' = drop (length (updates s)) (updates s')"

section \<open>Sample inputs\<close>

definition sample_user :: User where
  "sample_user = \<lparr>user_id = ''7'', user_name = ''Uma'', user_email = ''u@x.com'',
                   user_created_at = ''2024-01-01''\<rparr>"

text \<open>A store holding both tokens, and an empty one, in front of a scripted backend.\<close>

definition stored :: "string \<Rightarrow> string \<Rightarrow> outcome list \<Rightarrow> world" where
  "stored a r outs =
     \<lparr>secure = [ACCESS_TOKEN_KEY \<mapsto> a, REFRESH_TOKEN_KEY \<mapsto> r],
      read_faults = [], write_faults = [], delete_faults = [], net = outs, wire = []\<rparr>"

definition blank :: "outcome list \<Rightarrow> world" where
  "blank outs =
     \<lparr>secure = Map.empty,
      read_faults = [], write_faults = [], delete_faults = [], net = outs, wire = []\<rparr>"

definition reply :: "nat \<Rightarrow> payload option \<Rightarrow> outcome" where
  "reply n d = Reply \<lparr>status = n, data = d\<rparr>"

definition new_access :: "string \<Rightarrow> payload" where
  "new_access a = \<lparr>p_user = None, p_access_token = Some a, p_refresh_token = None\<rparr>"

definition auth_payload :: payload where
  "auth_payload =
     \<lparr>p_user = Some sample_user, p_access_token = Some ''a1'', p_refresh_token = Some ''r1''\<rparr>"

definition profile_payload :: payload where
  "profile_payload = \<lparr>p_user = Some sample_user, p_access_token = None, p_refresh_token = None\<rparr>"

definition profile_request :: request where
  "profile_request = api_config GET ''/auth/me'' []"

definition logout_request :: request where
  "logout_request = (api_config POST ''/auth/logout'' [])\<lparr>headers :=
      [''Content-Type'' \<mapsto> ''application/json'', ''Authorization'' \<mapsto> ''Bearer a1'']\<rparr>"

definition unauthorized :: "request \<Rightarrow> axios_error" where
  "unauthorized cfg = \<lparr>config = Some cfg, response = Some \<lparr>status = 401, data = None\<rparr>\<rparr>"

text \<open>A backend that rejects the request, grants the refresh and rejects the new token.\<close>

definition rejecting_backend :: world where
  "rejecting_backend =
     stored ''a1'' ''r1'' [reply 401 None, reply 200 (Some (new_access ''a2'')), reply 401 None]"

text \<open>A backend that grants the refresh, and the same with a failing second store read.\<close>

definition refreshing :: world where
  "refreshing = stored ''a1'' ''r1'' [reply 200 (Some (new_access ''a2'')), reply 200 None]"

definition reread_fails :: world where
  "reread_fails = refreshing\<lparr>read_faults := [False, True]\<rparr>"

text \<open>The network is down for the first request; the backend answers the next one with 401.\<close>

definition offline :: world where
  "offline = stored ''a1'' ''r1'' [NoReply, reply 401 None]"

definition signed_in :: session where
  "signed_in = \<lparr>user = Some sample_user, isLoading = False, updates = []\<rparr>"

section \<open>Running the model on concrete inputs\<close>

lemmas store_defs =
  getItemAsync_def setItemAsync_def deleteItemAsync_def getAccessToken_def getRefreshToken_def
  setTokens_def clearTokens_def ACCESS_TOKEN_KEY_def REFRESH_TOKEN_KEY_def read_fails_def
  truthy_def template_def or_empty_def

lemmas pipeline_defs =
  transport_def axios_post_def request_interceptor_def refresh_failed_def status_of_def
  retry_of_def api.simps response_rejected.simps api_config_def
  API_BASE_URL_def sent_since_def Let_def

lemmas sample_defs =
  sample_user_def stored_def blank_def reply_def new_access_def profile_request_def
  unauthorized_def

section \<open>Effects of the store and the transport\<close>

lemma key_distinct: "ACCESS_TOKEN_KEY \<noteq> REFRESH_TOKEN_KEY"
  by (simp add: ACCESS_TOKEN_KEY_def REFRESH_TOKEN_KEY_def)

lemma getItemAsync_frame:
  "getItemAsync w k = (r, w') \<Longrightarrow>
     secure w' = secure w \<and> write_faults w' = write_faults w \<and>
     delete_faults w' = delete_faults w \<and> net w' = net w \<and> wire w' = wire w"
  by (auto simp: getItemAsync_def split: list.splits)

lemma getRefreshToken_frame:
  "getRefreshToken w = (t, w') \<Longrightarrow>
     secure w' = secure w \<and> write_faults w' = write_faults w \<and>
     delete_faults w' = delete_faults w \<and> net w' = net w \<and> wire w' = wire w"
  by (auto simp: getRefreshToken_def split: prod.splits sum.splits dest: getItemAsync_frame)

lemma getAccessToken_frame:
  "getAccessToken w = (t, w') \<Longrightarrow>
     secure w' = secure w \<and> write_faults w' = write_faults w \<and>
     delete_faults w' = delete_faults w \<and> net w' = net w \<and> wire w' = wire w"
  by (auto simp: getAccessToken_def split: prod.splits sum.splits dest: getItemAsync_frame)

lemma getRefreshToken_value:
  "fst (getRefreshToken w) = (if read_fails w then None else secure w REFRESH_TOKEN_KEY)"
  by (simp add: getRefreshToken_def getItemAsync_def read_fails_def split: list.splits)

lemma getAccessToken_value:
  "fst (getAccessToken w) = (if read_fails w then None else secure w ACCESS_TOKEN_KEY)"
  by (simp add: getAccessToken_def getItemAsync_def read_fails_def split: list.splits)

lemma setItemAsync_None: "setItemAsync w k None = (Inl StoreError, w)"
  by (simp add: setItemAsync_def)

lemma setTokens_None: "setTokens w None r = (Inl StoreError, w)"
  by (simp add: setTokens_def setItemAsync_None)

lemma setItemAsync_frame:
  "setItemAsync w k v = (r, w') \<Longrightarrow>
     read_faults w' = read_faults w \<and> delete_faults w' = delete_faults w \<and>
     net w' = net w \<and> wire w' = wire w"
  by (auto simp: setItemAsync_def split: option.splits list.splits if_splits)

lemma setTokens_frame:
  "setTokens w a b = (r, w') \<Longrightarrow>
     read_faults w' = read_faults w \<and> delete_faults w' = delete_faults w \<and>
     net w' = net w \<and> wire w' = wire w"
  by (auto simp: setTokens_def split: prod.splits sum.splits dest!: setItemAsync_frame)

lemma setTokens_written:
  "write_faults w = [] \<Longrightarrow>
     setTokens w (Some a) (Some b) =
       (Inr (), w\<lparr>secure := (secure w)(ACCESS_TOKEN_KEY \<mapsto> a, REFRESH_TOKEN_KEY \<mapsto> b)\<rparr>)"
  by (simp add: setTokens_def setItemAsync_def)

lemma setTokens_success:
  assumes "setTokens w a b = (Inr u, w')"
  shows "a \<noteq> None \<and> b \<noteq> None \<and> secure w' ACCESS_TOKEN_KEY = a \<and>
         secure w' REFRESH_TOKEN_KEY = b \<and> wire w' = wire w"
  using assms key_distinct
  by (auto simp: setTokens_def setItemAsync_def
      split: option.splits list.splits if_splits prod.splits sum.splits)

lemma deleteItemAsync_frame:
  "deleteItemAsync w k = (r, w') \<Longrightarrow>
     read_faults w' = read_faults w \<and> write_faults w' = write_faults w \<and>
     net w' = net w \<and> wire w' = wire w \<and> (delete_faults w = [] \<longrightarrow> delete_faults w' = [])"
  by (auto simp: deleteItemAsync_def split: list.splits if_splits)

lemma clearTokens_frame:
  "clearTokens w = (r, w') \<Longrightarrow>
     read_faults w' = read_faults w \<and> write_faults w' = write_faults w \<and>
     net w' = net w \<and> wire w' = wire w \<and> (delete_faults w = [] \<longrightarrow> delete_faults w' = [])"
  by (auto simp: clearTokens_def split: prod.splits sum.splits dest!: deleteItemAsync_frame)

lemma clearTokens_ok:
  "delete_faults w = [] \<Longrightarrow>
     clearTokens w =
       (Inr (), w\<lparr>secure := (secure w)(ACCESS_TOKEN_KEY := None, REFRESH_TOKEN_KEY := None)\<rparr>)"
  by (simp add: clearTokens_def deleteItemAsync_def)

lemma refresh_failed_frame:
  "refresh_failed w e = (r, w') \<Longrightarrow>
     read_faults w' = read_faults w \<and> write_faults w' = write_faults w \<and>
     net w' = net w \<and> wire w' = wire w \<and> (delete_faults w = [] \<longrightarrow> delete_faults w' = [])"
  by (auto simp: refresh_failed_def split: prod.splits sum.splits dest!: clearTokens_frame)

lemma refresh_failed_ok:
  "delete_faults w = [] \<Longrightarrow>
     refresh_failed w e =
       (Inl (AxiosError e),
        w\<lparr>secure := (secure w)(ACCESS_TOKEN_KEY := None, REFRESH_TOKEN_KEY := None)\<rparr>)"
  by (simp add: refresh_failed_def clearTokens_ok)

lemma or_empty_cases: "or_empty v = (case v of None \<Rightarrow> [] | Some r \<Rightarrow> r)"
  by (simp add: or_empty_def truthy_def template_def split: option.splits)

lemma transport_config:
  "transport i w cfg = (Inl e, w') \<Longrightarrow> config e = Some cfg"
  by (auto simp: transport_def Let_def split: list.splits outcome.splits if_splits)

lemma transport_frame:
  "transport i w cfg = (r, w') \<Longrightarrow>
     secure w' = secure w \<and> read_faults w' = read_faults w \<and> write_faults w' = write_faults w \<and>
     delete_faults w' = delete_faults w \<and> wire w' = wire w @ [(i, cfg)] \<and> net w' = tl (net w)"
  by (auto simp: transport_def Let_def split: list.splits outcome.splits if_splits)

lemma axios_post_refresh:
  "axios_post w (API_BASE_URL @ ''/auth/refresh'') [(''refresh_token'', t)] =
     transport Global w (refresh_request t)"
  by (simp add: axios_post_def refresh_request_def)

lemma request_interceptor_retry:
  "request_interceptor w cfg = (cfg', w') \<Longrightarrow> retry cfg' = retry cfg"
  by (auto simp: request_interceptor_def split: prod.splits if_splits)

lemma request_interceptor_fields:
  "retry (fst (request_interceptor w cfg)) = retry cfg \<and>
   url (fst (request_interceptor w cfg)) = url cfg \<and>
   http_method (fst (request_interceptor w cfg)) = http_method cfg \<and>
   body (fst (request_interceptor w cfg)) = body cfg"
  by (simp add: request_interceptor_def split: prod.splits)

lemma request_interceptor_frame:
  "request_interceptor w cfg = (cfg', w') \<Longrightarrow>
     secure w' = secure w \<and> write_faults w' = write_faults w \<and>
     delete_faults w' = delete_faults w \<and> net w' = net w \<and> wire w' = wire w"
  by (auto simp: request_interceptor_def split: prod.splits if_splits dest: getAccessToken_frame)

section \<open>The paths through the rejected handler\<close>

text \<open>A request that carries the marker goes through \<open>api\<close> without a refresh.\<close>

lemma api_retried:
  "retry cfg \<Longrightarrow>
   api w cfg =
     (case transport Api (snd (request_interceptor w cfg)) (fst (request_interceptor w cfg)) of
        (Inr resp, w2) \<Rightarrow> (Inr resp, w2)
      | (Inl err, w2) \<Rightarrow> (Inl (AxiosError err), w2))"
  apply (subst api.simps)
  apply (auto split: prod.splits sum.splits)
  apply (subst response_rejected.simps)
  apply (auto dest!: transport_config request_interceptor_retry simp: retry_of_def)
  done

lemma api_retried_frame:
  assumes "retry cfg" and "api w cfg = (r, w')"
  shows "secure w' = secure w \<and> write_faults w' = write_faults w \<and>
     delete_faults w' = delete_faults w \<and>
     wire w' = wire w @ [(Api, fst (request_interceptor w cfg))] \<and> net w' = tl (net w)"
proof -
  obtain c1 w1 where i: "request_interceptor w cfg = (c1, w1)"
    by (cases "request_interceptor w cfg")
  obtain x w2 where t: "transport Api w1 c1 = (x, w2)"
    by (cases "transport Api w1 c1")
  have "w' = w2"
    using assms i t by (simp add: api_retried split: sum.splits)
  then show ?thesis
    using request_interceptor_frame [OF i] transport_frame [OF t] i by simp
qed

text \<open>What the caller of \<open>api\<close> gets for a rejected request is what the handler returns.\<close>

lemma api_rejected:
  "request_interceptor w cfg = (cfg', w1) \<Longrightarrow> transport Api w1 cfg' = (Inl err, w2) \<Longrightarrow>
     api w cfg = response_rejected w2 err"
  by (subst api.simps) simp

lemma api_fulfilled:
  "request_interceptor w cfg = (cfg', w1) \<Longrightarrow> transport Api w1 cfg' = (Inr resp, w2) \<Longrightarrow>
     api w cfg = (Inr resp, w2)"
  by (subst api.simps) simp

lemma response_rejected_final:
  assumes "status_of err \<noteq> Some 401 \<or> retry_of (config err)"
  shows "response_rejected w err = (Inl (AxiosError err), w)"
  using assms by (subst response_rejected.simps) auto

lemma response_rejected_no_config:
  assumes "status_of err = Some 401" and "config err = None"
  shows "response_rejected w err = (Inl TypeError, w)"
  using assms by (subst response_rejected.simps) (simp add: retry_of_def)

lemma response_rejected_no_token:
  assumes "status_of err = Some 401" and "config err = Some cfg" and "\<not> retry cfg"
    and "getRefreshToken w = (v, w1)" and "\<not> truthy v"
  shows "response_rejected w err =
           (Inl (AxiosError (err\<lparr>config := Some (cfg\<lparr>retry := True\<rparr>)\<rparr>)), w1)"
  using assms
  by (subst response_rejected.simps) (simp add: retry_of_def Let_def)

lemma response_rejected_refresh:
  assumes "status_of err = Some 401" and "config err = Some cfg" and "\<not> retry cfg"
    and "getRefreshToken w = (Some t, w1)" and "t \<noteq> []"
    and "transport Global w1 (refresh_request t) = (r, w2)"
  shows "response_rejected w err =
      (case r of
         Inl _ \<Rightarrow> refresh_failed w2 (err\<lparr>config := Some (cfg\<lparr>retry := True\<rparr>)\<rparr>)
       | Inr resp \<Rightarrow>
           (case data resp of
              None \<Rightarrow> refresh_failed w2 (err\<lparr>config := Some (cfg\<lparr>retry := True\<rparr>)\<rparr>)
            | Some d \<Rightarrow>
                (case getRefreshToken w2 of
                   (cur, w3) \<Rightarrow>
                     (case setTokens w3 (p_access_token d) (Some (or_empty cur)) of
                        (Inl _, w4) \<Rightarrow>
                          refresh_failed w4 (err\<lparr>config := Some (cfg\<lparr>retry := True\<rparr>)\<rparr>)
                      | (Inr _, w4) \<Rightarrow>
                          api w4 (cfg\<lparr>retry := True, headers :=
                            (headers cfg)(''Authorization'' \<mapsto>
                               ''Bearer '' @ template (p_access_token d))\<rparr>)))))"
  using assms
  by (subst response_rejected.simps)
     (simp add: retry_of_def Let_def truthy_def template_def axios_post_refresh
        split: sum.splits option.splits prod.splits)

lemma response_rejected_frame:
  assumes "response_rejected w err = (res, w')"
  shows "(delete_faults w = [] \<longrightarrow> delete_faults w' = []) \<and>
         (\<exists>evs. wire w' = wire w @ evs \<and> handler_traffic evs)"
proof (cases "status_of err = Some 401 \<and> \<not> retry_of (config err)")
  case False
  then have "w' = w"
    using assms response_rejected_final [of err w] by auto
  then show ?thesis by (simp add: handler_traffic.intros)
next
  case True
  show ?thesis
  proof (cases "config err")
    case None
    then have "w' = w"
      using assms True response_rejected_no_config [of err w] by simp
    then show ?thesis by (simp add: handler_traffic.intros)
  next
    case (Some cfg)
    with True have nr: "\<not> retry cfg" by (simp add: retry_of_def)
    obtain v w1 where r1: "getRefreshToken w = (v, w1)"
      by (cases "getRefreshToken w")
    note f1 = getRefreshToken_frame [OF r1]
    show ?thesis
    proof (cases "truthy v")
      case False
      then have "w' = w1"
        using assms True Some nr r1 response_rejected_no_token [of err cfg w v w1] by simp
      then show ?thesis using f1 by (simp add: handler_traffic.intros)
    next
      case tv: True
      then obtain t where t: "v = Some t" "t \<noteq> []"
        by (auto simp: truthy_def split: option.splits)
      obtain r w2 where p: "transport Global w1 (refresh_request t) = (r, w2)"
        by (cases "transport Global w1 (refresh_request t)")
      note f2 = transport_frame [OF p]
      note body = response_rejected_refresh [OF conjunct1 [OF True] Some nr r1 [unfolded t(1)] t(2) p]
      have fail: "(delete_faults w = [] \<longrightarrow> delete_faults w' = []) \<and>
            wire w' = wire w @ [(Global, refresh_request t)]"
        if "refresh_failed w3 e = (res, w')" and "delete_faults w3 = delete_faults w"
          and "wire w3 = wire w2" for w3 e
        using refresh_failed_frame [OF that(1)] that(2,3) f1 f2 by simp
      have done_fail: ?thesis
        if "(delete_faults w = [] \<longrightarrow> delete_faults w' = []) \<and>
            wire w' = wire w @ [(Global, refresh_request t)]"
        using that t(2) by (simp add: handler_traffic.intros)
      show ?thesis
      proof (cases r)
        case (Inl a)
        then have "refresh_failed w2 (err\<lparr>config := Some (cfg\<lparr>retry := True\<rparr>)\<rparr>) = (res, w')"
          using body assms by simp
        from fail [OF this] f1 f2 show ?thesis by (intro done_fail) simp
      next
        case (Inr resp)
        show ?thesis
        proof (cases "data resp")
          case None
          then have "refresh_failed w2 (err\<lparr>config := Some (cfg\<lparr>retry := True\<rparr>)\<rparr>) = (res, w')"
            using body assms Inr by simp
          from fail [OF this] f1 f2 show ?thesis by (intro done_fail) simp
        next
          case (Some d)
          obtain cur w3 where r3: "getRefreshToken w2 = (cur, w3)"
            by (cases "getRefreshToken w2")
          note f3 = getRefreshToken_frame [OF r3]
          obtain x w4 where s4: "setTokens w3 (p_access_token d) (Some (or_empty cur)) = (x, w4)"
            by (cases "setTokens w3 (p_access_token d) (Some (or_empty cur))")
          note f4 = setTokens_frame [OF s4]
          show ?thesis
          proof (cases x)
            case (Inl a)
            then have "refresh_failed w4 (err\<lparr>config := Some (cfg\<lparr>retry := True\<rparr>)\<rparr>) = (res, w')"
              using body assms Inr Some r3 s4 by simp
            from fail [OF this] f1 f2 f3 f4 show ?thesis by (intro done_fail) simp
          next
            case (Inr u)
            let ?c = "cfg\<lparr>retry := True, headers :=
                            (headers cfg)(''Authorization'' \<mapsto>
                               ''Bearer '' @ template (p_access_token d))\<rparr>"
            have a: "api w4 ?c = (res, w')"
              using body assms \<open>r = Inr resp\<close> Some r3 s4 Inr by simp
            have rc: "retry ?c" by simp
            from api_retried_frame [OF rc a] f1 f2 f3 f4
            have "delete_faults w' = delete_faults w"
              "wire w' = wire w @ [(Global, refresh_request t), (Api, fst (request_interceptor w4 ?c))]"
              by simp_all
            moreover have "retry (fst (request_interceptor w4 ?c))"
              using request_interceptor_retry [of w4 ?c] by (cases "request_interceptor w4 ?c") simp
            ultimately show ?thesis
              using t(2) by (simp add: handler_traffic.intros)
          qed
        qed
      qed
    qed
  qed
qed

lemma api_frame:
  assumes "api w cfg = (res, w')"
  shows "(delete_faults w = [] \<longrightarrow> delete_faults w' = []) \<and>
         (\<exists>evs. wire w' = wire w @ (Api, fst (request_interceptor w cfg)) # evs \<and>
            handler_traffic evs)"
proof -
  obtain c1 w1 where i: "request_interceptor w cfg = (c1, w1)"
    by (cases "request_interceptor w cfg")
  obtain x w2 where t: "transport Api w1 c1 = (x, w2)"
    by (cases "transport Api w1 c1")
  note fi = request_interceptor_frame [OF i] and ft = transport_frame [OF t]
  have w2: "delete_faults w2 = delete_faults w"
    "wire w2 = wire w @ [(Api, fst (request_interceptor w cfg))]"
    using fi ft i by simp_all
  show ?thesis
  proof (cases x)
    case (Inr resp)
    then have "w' = w2" using assms i t by (subst (asm) api.simps) simp
    then show ?thesis using w2 by (simp add: handler_traffic.intros)
  next
    case (Inl e)
    then have "response_rejected w2 e = (res, w')"
      using assms i t by (subst (asm) api.simps) simp
    from response_rejected_frame [OF this] w2 show ?thesis by auto
  qed
qed

lemma handler_traffic_counts:
  "handler_traffic evs \<Longrightarrow> refresh_calls evs \<le> 1 \<and> resubmissions evs \<le> 1 \<and> submissions evs = 0"
  by (induction rule: handler_traffic.induct)
     (simp_all add: refresh_calls_def resubmissions_def submissions_def refresh_request_def)

lemma handler_traffic_global:
  "handler_traffic evs \<Longrightarrow> (i, r) \<in> set evs \<Longrightarrow> i = Global \<Longrightarrow> is_refresh_call r"
  by (induction rule: handler_traffic.induct)
     (auto simp: is_refresh_call_def refresh_request_def)

lemma api_sent:
  "\<exists>evs. sent_since w (snd (api w cfg)) = (Api, fst (request_interceptor w cfg)) # evs \<and>
     handler_traffic evs"
  using api_frame [of w cfg "fst (api w cfg)" "snd (api w cfg)"]
  by (auto simp: sent_since_def)

lemma api_submissions: "\<not> retry cfg \<Longrightarrow> submissions (sent_since w (snd (api w cfg))) = 1"
proof -
  assume nr: "\<not> retry cfg"
  obtain evs where s: "sent_since w (snd (api w cfg)) = (Api, fst (request_interceptor w cfg)) # evs"
      "handler_traffic evs"
    using api_sent by blast
  from handler_traffic_counts [OF s(2)] s(1) nr show ?thesis
    by (simp add: submissions_def request_interceptor_fields)
qed

lemma api_first_sent:
  "wire w0 = wire w \<Longrightarrow>
   first_sent w0 (snd (api w cfg)) = Some (Api, http_method cfg, url cfg, body cfg)"
  using api_sent [of w cfg]
  by (auto simp: first_sent_def sent_since_def request_interceptor_fields)

lemma first_sent_wire: "wire w' = wire w'' \<Longrightarrow> first_sent w w' = first_sent w w''"
  by (simp add: first_sent_def sent_since_def)

lemma AuthAPI_getProfile_first_sent:
  "wire w0 = wire w \<Longrightarrow>
   first_sent w0 (snd (AuthAPI_getProfile w)) = Some (Api, GET, ''/auth/me'', [])"
proof -
  assume "wire w0 = wire w"
  from api_first_sent [OF this, of "api_config GET ''/auth/me'' []"]
  show ?thesis
    by (auto simp: AuthAPI_getProfile_def api_get_def api_config_def split: prod.splits sum.splits)
qed

lemma AuthAPI_login_wire:
  "wire (snd (AuthAPI_login w email password)) =
   wire (snd (api_post w ''/auth/login'' [(''email'', email), (''password'', password)]))"
  by (auto simp: AuthAPI_login_def split: prod.splits sum.splits option.splits
      dest: setTokens_frame)

lemma AuthAPI_getProfile_frame:
  assumes "AuthAPI_getProfile w = (r, w')"
  shows "delete_faults w = [] \<longrightarrow> delete_faults w' = []"
proof -
  obtain x where "api w (api_config GET ''/auth/me'' []) = (x, w')"
    using assms by (auto simp: AuthAPI_getProfile_def api_get_def split: prod.splits sum.splits)
  from api_frame [OF this] show ?thesis by simp
qed

lemma finish_updates:
  "updates s' = updates s @ us \<Longrightarrow> loading_updates us = [] \<Longrightarrow>
   loading_updates (updates_since s (setIsLoading False s')) = [SetIsLoading False] \<and>
   last (updates (setIsLoading False s')) = SetIsLoading False \<and>
   \<not> isLoading (setIsLoading False s')"
  by (simp add: setIsLoading_def updates_since_def loading_updates_def)

section \<open>Properties of the token store\<close>

text \<open>
  C10. Token store round trip. On a store whose writes and reads do not fail,
  \<open>setTokens a b\<close> succeeds and is followed by \<open>getAccessToken\<close> returning \<open>a\<close> and
  \<open>getRefreshToken\<close> returning \<open>b\<close>, for all strings \<open>a\<close> and \<open>b\<close>. On a store whose deletes
  do not fail, \<open>clearTokens\<close> succeeds and is followed by both reads returning absent,
  whether those reads fail or not.
\<close>

theorem token_store_round_trip:
  "(write_faults w = [] \<and> read_faults w = [] \<longrightarrow>
      fst (setTokens w (Some a) (Some b)) = Inr () \<and>
      fst (getAccessToken (snd (setTokens w (Some a) (Some b)))) = Some a \<and>
      fst (getRefreshToken (snd (setTokens w (Some a) (Some b)))) = Some b) \<and>
   (delete_faults w = [] \<longrightarrow>
      fst (clearTokens w) = Inr () \<and>
      fst (getAccessToken (snd (clearTokens w))) = None \<and>
      fst (getRefreshToken (snd (clearTokens w))) = None)"
  using key_distinct [symmetric]
  by (auto simp: setTokens_def clearTokens_def setItemAsync_def deleteItemAsync_def
      getAccessToken_def getRefreshToken_def getItemAsync_def key_distinct
      split: list.splits)

theorem token_store_round_trip_witness:
  "write_faults (blank []) = [] \<and> read_faults (blank []) = [] \<and>
   fst (setTokens (blank []) (Some ''a1'') (Some ''r1'')) = Inr () \<and>
   fst (getAccessToken (snd (setTokens (blank []) (Some ''a1'') (Some ''r1'')))) = Some ''a1'' \<and>
   fst (getRefreshToken (snd (setTokens (blank []) (Some ''a1'') (Some ''r1'')))) = Some ''r1'' \<and>
   delete_faults (stored ''a1'' ''r1'' []) = [] \<and>
   secure (stored ''a1'' ''r1'' []) REFRESH_TOKEN_KEY = Some ''r1'' \<and>
   fst (clearTokens (stored ''a1'' ''r1'' [])) = Inr () \<and>
   fst (getAccessToken (snd (clearTokens (stored ''a1'' ''r1'' [])))) = None \<and>
   fst (getRefreshToken (snd (clearTokens (stored ''a1'' ''r1'' [])))) = None"
proof -
  have h: "write_faults (blank []) = [] \<and> read_faults (blank []) = []"
    "delete_faults (stored ''a1'' ''r1'' []) = []"
    "secure (stored ''a1'' ''r1'' []) REFRESH_TOKEN_KEY = Some ''r1''"
    by (simp_all add: sample_defs store_defs)
  from token_store_round_trip [of "blank []" "''a1''" "''r1''"] h(1)
  have a: "fst (setTokens (blank []) (Some ''a1'') (Some ''r1'')) = Inr ()"
    "fst (getAccessToken (snd (setTokens (blank []) (Some ''a1'') (Some ''r1'')))) = Some ''a1''"
    "fst (getRefreshToken (snd (setTokens (blank []) (Some ''a1'') (Some ''r1'')))) = Some ''r1''"
    by simp_all
  from token_store_round_trip [of "stored ''a1'' ''r1'' []"] h(2)
  have b: "fst (clearTokens (stored ''a1'' ''r1'' [])) = Inr ()"
    "fst (getAccessToken (snd (clearTokens (stored ''a1'' ''r1'' [])))) = None"
    "fst (getRefreshToken (snd (clearTokens (stored ''a1'' ''r1'' [])))) = None"
    by simp_all
  show ?thesis using h a b by simp
qed

section \<open>Properties of the request interceptor\<close>

text \<open>
  C4. The request interceptor reads the stored access token. When the read succeeds
  and the store holds a non-empty token \<open>t\<close>, the request goes on with its
  \<^verbatim>\<open>Authorization\<close> header set to \<^verbatim>\<open>Bearer t\<close> and nothing else changed: the headers are
  a map, so there is exactly one such header. When the token is absent or the read
  fails, the request goes on unchanged. The interceptor has no failing path.
\<close>

theorem request_interceptor_bearer:
  "(\<not> read_fails w \<and> secure w ACCESS_TOKEN_KEY = Some t \<and> t \<noteq> [] \<longrightarrow>
      fst (request_interceptor w cfg) =
        cfg\<lparr>headers := (headers cfg)(''Authorization'' \<mapsto> ''Bearer '' @ t)\<rparr>) \<and>
   (read_fails w \<or> secure w ACCESS_TOKEN_KEY = None \<longrightarrow> fst (request_interceptor w cfg) = cfg)"
  using getAccessToken_value [of w]
  by (auto simp: request_interceptor_def truthy_def template_def
      split: prod.splits if_splits option.splits)

theorem request_interceptor_bearer_witness:
  "\<not> read_fails (stored ''a1'' ''r1'' []) \<and>
   secure (stored ''a1'' ''r1'' []) ACCESS_TOKEN_KEY = Some ''a1'' \<and>
   fst (request_interceptor (stored ''a1'' ''r1'' []) profile_request) =
     profile_request\<lparr>headers := (headers profile_request)(''Authorization'' \<mapsto> ''Bearer a1'')\<rparr> \<and>
   headers (fst (request_interceptor (stored ''a1'' ''r1'' []) profile_request)) ''Authorization'' =
     Some ''Bearer a1'' \<and>
   read_fails ((stored ''a1'' ''r1'' [])\<lparr>read_faults := [True]\<rparr>) \<and>
   fst (request_interceptor ((stored ''a1'' ''r1'' [])\<lparr>read_faults := [True]\<rparr>) profile_request) =
     profile_request \<and>
   secure (blank []) ACCESS_TOKEN_KEY = None \<and>
   fst (request_interceptor (blank []) profile_request) = profile_request"
proof -
  let ?w = "stored ''a1'' ''r1'' []"
  have h1: "\<not> read_fails ?w \<and> secure ?w ACCESS_TOKEN_KEY = Some ''a1'' \<and> ''a1'' \<noteq> []"
    by (simp add: sample_defs store_defs)
  have h2: "read_fails (?w\<lparr>read_faults := [True]\<rparr>)"
    by (simp add: sample_defs store_defs)
  have h3: "secure (blank []) ACCESS_TOKEN_KEY = None"
    by (simp add: sample_defs store_defs)
  from request_interceptor_bearer [of ?w "''a1''" profile_request] h1
  have a: "fst (request_interceptor ?w profile_request) =
     profile_request\<lparr>headers := (headers profile_request)(''Authorization'' \<mapsto> ''Bearer a1'')\<rparr>"
    by simp
  from request_interceptor_bearer [of "?w\<lparr>read_faults := [True]\<rparr>" "''a1''" profile_request] h2
  have b: "fst (request_interceptor (?w\<lparr>read_faults := [True]\<rparr>) profile_request) = profile_request"
    by simp
  from request_interceptor_bearer [of "blank []" "''a1''" profile_request] h3
  have c: "fst (request_interceptor (blank []) profile_request) = profile_request"
    by simp
  show ?thesis using h1 h2 h3 a b c by simp
qed

text \<open>A stored empty string is falsy: the interceptor treats it as no token.\<close>

lemma request_interceptor_empty_token:
  "secure w ACCESS_TOKEN_KEY = Some [] \<Longrightarrow> fst (request_interceptor w cfg) = cfg"
  using getAccessToken_value [of w]
  by (auto simp: request_interceptor_def truthy_def split: prod.splits if_splits option.splits)

section \<open>Properties of the response interceptor\<close>

text \<open>
  C9. A request that receives a 401 and is not yet retried, while the stored refresh
  token reads back absent (or empty, or the read fails): no request goes on the wire,
  the net is untouched, the stored credentials are left as they were, and the handler
  rejects with the original 401 error, whose configuration now carries the retry
  marker.
\<close>

theorem no_refresh_token:
  assumes "status_of err = Some 401" and "config err = Some cfg" and "\<not> retry cfg"
    and "\<not> truthy (fst (getRefreshToken w))"
  shows "fst (response_rejected w err) =
           Inl (AxiosError (err\<lparr>config := Some (cfg\<lparr>retry := True\<rparr>)\<rparr>)) \<and>
         secure (snd (response_rejected w err)) = secure w \<and>
         wire (snd (response_rejected w err)) = wire w \<and>
         net (snd (response_rejected w err)) = net w"
proof -
  obtain v w1 where r1: "getRefreshToken w = (v, w1)"
    by (cases "getRefreshToken w")
  with assms(4) have "\<not> truthy v" by simp
  from response_rejected_no_token [OF assms(1-3) r1 this] getRefreshToken_frame [OF r1]
  show ?thesis by simp
qed

theorem no_refresh_token_witness:
  "status_of (unauthorized profile_request) = Some 401 \<and>
   config (unauthorized profile_request) = Some profile_request \<and> \<not> retry profile_request \<and>
   \<not> truthy (fst (getRefreshToken ((blank [])\<lparr>secure := [ACCESS_TOKEN_KEY \<mapsto> ''a1'']\<rparr>))) \<and>
   fst (response_rejected ((blank [])\<lparr>secure := [ACCESS_TOKEN_KEY \<mapsto> ''a1'']\<rparr>)
          (unauthorized profile_request)) =
     Inl (AxiosError (unauthorized (profile_request\<lparr>retry := True\<rparr>))) \<and>
   secure (snd (response_rejected ((blank [])\<lparr>secure := [ACCESS_TOKEN_KEY \<mapsto> ''a1'']\<rparr>)
          (unauthorized profile_request))) = [ACCESS_TOKEN_KEY \<mapsto> ''a1''] \<and>
   wire (snd (response_rejected ((blank [])\<lparr>secure := [ACCESS_TOKEN_KEY \<mapsto> ''a1'']\<rparr>)
          (unauthorized profile_request))) = []"
proof -
  let ?w = "(blank [])\<lparr>secure := [ACCESS_TOKEN_KEY \<mapsto> ''a1'']\<rparr>"
  have h: "status_of (unauthorized profile_request) = Some 401"
    "config (unauthorized profile_request) = Some profile_request" "\<not> retry profile_request"
    "\<not> truthy (fst (getRefreshToken ?w))"
    by (simp_all add: sample_defs store_defs pipeline_defs)
  have e: "(unauthorized profile_request)\<lparr>config := Some (profile_request\<lparr>retry := True\<rparr>)\<rparr> =
      unauthorized (profile_request\<lparr>retry := True\<rparr>)"
    "secure ?w = [ACCESS_TOKEN_KEY \<mapsto> ''a1'']" "wire ?w = []"
    by (simp_all add: sample_defs)
  show ?thesis
    using no_refresh_token [OF h] h e by simp
qed

text \<open>
  C2. A request that receives a 401, is not yet retried and finds a non-empty stored
  refresh token, while the refresh call fails (no reply, a status outside 200..299, or
  a reply without the \<^verbatim>\<open>access_token\<close> field): provided the deletes of the store do not
  fail, both stored tokens are cleared, the only request on the wire is the refresh
  call, and the handler rejects with the original 401 error (its configuration now
  marked), not with the error of the refresh call.
\<close>

theorem refresh_failure_clears_tokens:
  assumes "status_of err = Some 401" and "config err = Some cfg" and "\<not> retry cfg"
    and "\<not> read_fails w" and "secure w REFRESH_TOKEN_KEY = Some t" and "t \<noteq> []"
    and "refresh_fails (net w)"
    and "delete_faults w = []"
  shows "fst (response_rejected w err) =
           Inl (AxiosError (err\<lparr>config := Some (cfg\<lparr>retry := True\<rparr>)\<rparr>)) \<and>
         secure (snd (response_rejected w err)) ACCESS_TOKEN_KEY = None \<and>
         secure (snd (response_rejected w err)) REFRESH_TOKEN_KEY = None \<and>
         sent_since w (snd (response_rejected w err)) = [(Global, refresh_request t)]"
proof -
  obtain w1 where r1: "getRefreshToken w = (Some t, w1)"
    using getRefreshToken_value [of w] assms(4,5) by (cases "getRefreshToken w") simp
  from getRefreshToken_frame [OF r1]
  have f1: "net w1 = net w" "delete_faults w1 = []" "wire w1 = wire w"
    using assms(8) by simp_all
  obtain r w2 where p: "transport Global w1 (refresh_request t) = (r, w2)"
    by (cases "transport Global w1 (refresh_request t)")
  from transport_frame [OF p]
  have f2: "delete_faults w2 = []" "wire w2 = wire w @ [(Global, refresh_request t)]"
    using f1 by simp_all
  let ?e = "err\<lparr>config := Some (cfg\<lparr>retry := True\<rparr>)\<rparr>"
  note body = response_rejected_refresh [OF assms(1-3) r1 assms(6) p]
  have "\<exists>w3. response_rejected w err = refresh_failed w3 ?e \<and> delete_faults w3 = [] \<and>
          wire w3 = wire w2"
  proof (cases r)
    case (Inl a)
    then show ?thesis using body f2 by auto
  next
    case (Inr resp)
    with p assms(7) f1 have
      "data resp = None \<or> (\<exists>d. data resp = Some d \<and> p_access_token d = None)"
      by (auto simp: transport_def Let_def refresh_fails_def
          split: list.splits outcome.splits if_splits option.splits)
    then show ?thesis
    proof
      assume "data resp = None"
      then show ?thesis using body Inr f2 by auto
    next
      assume "\<exists>d. data resp = Some d \<and> p_access_token d = None"
      then obtain d where d: "data resp = Some d" "p_access_token d = None" by blast
      obtain cur w3 where r3: "getRefreshToken w2 = (cur, w3)"
        by (cases "getRefreshToken w2")
      from getRefreshToken_frame [OF r3] f2
      have "delete_faults w3 = []" "wire w3 = wire w2" by simp_all
      then show ?thesis
        using body Inr d r3 by (auto simp: setTokens_None)
    qed
  qed
  then obtain w3 where w3: "response_rejected w err = refresh_failed w3 ?e"
      "delete_faults w3 = []" "wire w3 = wire w2"
    by blast
  show ?thesis
    using w3 f2 by (simp add: refresh_failed_ok sent_since_def)
qed

theorem refresh_failure_clears_tokens_witness:
  "status_of (unauthorized profile_request) = Some 401 \<and>
   config (unauthorized profile_request) = Some profile_request \<and> \<not> retry profile_request \<and>
   \<not> read_fails (stored ''a1'' ''r1'' [reply 400 None]) \<and>
   secure (stored ''a1'' ''r1'' [reply 400 None]) REFRESH_TOKEN_KEY = Some ''r1'' \<and>
   refresh_fails (net (stored ''a1'' ''r1'' [reply 400 None])) \<and>
   delete_faults (stored ''a1'' ''r1'' [reply 400 None]) = [] \<and>
   fst (response_rejected (stored ''a1'' ''r1'' [reply 400 None]) (unauthorized profile_request)) =
     Inl (AxiosError (unauthorized (profile_request\<lparr>retry := True\<rparr>))) \<and>
   secure (snd (response_rejected (stored ''a1'' ''r1'' [reply 400 None]) (unauthorized profile_request)))
     ACCESS_TOKEN_KEY = None \<and>
   secure (snd (response_rejected (stored ''a1'' ''r1'' [reply 400 None]) (unauthorized profile_request)))
     REFRESH_TOKEN_KEY = None \<and>
   refresh_fails (net (stored ''a1'' ''r1'' [reply 200 (Some profile_payload)])) \<and>
   fst (response_rejected (stored ''a1'' ''r1'' [reply 200 (Some profile_payload)]) (unauthorized profile_request)) =
     Inl (AxiosError (unauthorized (profile_request\<lparr>retry := True\<rparr>))) \<and>
   secure (snd (response_rejected (stored ''a1'' ''r1'' [reply 200 (Some profile_payload)]) (unauthorized profile_request)))
     REFRESH_TOKEN_KEY = None"
proof -
  let ?w = "stored ''a1'' ''r1'' [reply 400 None]"
  let ?v = "stored ''a1'' ''r1'' [reply 200 (Some profile_payload)]"
  have h: "status_of (unauthorized profile_request) = Some 401"
    "config (unauthorized profile_request) = Some profile_request" "\<not> retry profile_request"
    by (simp_all add: sample_defs pipeline_defs)
  have hw: "\<not> read_fails ?w" "secure ?w REFRESH_TOKEN_KEY = Some ''r1''" "''r1'' \<noteq> []"
    "refresh_fails (net ?w)" "delete_faults ?w = []"
    by (simp_all add: sample_defs profile_payload_def store_defs refresh_fails_def)
  have hv: "\<not> read_fails ?v" "secure ?v REFRESH_TOKEN_KEY = Some ''r1''" "''r1'' \<noteq> []"
    "refresh_fails (net ?v)" "delete_faults ?v = []"
    by (simp_all add: sample_defs profile_payload_def store_defs refresh_fails_def)
  have e: "(unauthorized profile_request)\<lparr>config := Some (profile_request\<lparr>retry := True\<rparr>)\<rparr> =
      unauthorized (profile_request\<lparr>retry := True\<rparr>)"
    by (simp add: sample_defs)
  show ?thesis
    using refresh_failure_clears_tokens [OF h hw] refresh_failure_clears_tokens [OF h hv] h hw hv e
    by simp
qed

text \<open>
  The handler writes \<^verbatim>\<open>currentRefreshToken || ''\<close>. When the second read of the refresh
  token comes back absent (here the read fails), the pair that is persisted holds the
  empty string as refresh token: not the token \<^verbatim>\<open>r1\<close> read before the refresh call, and
  not a non-empty string.
\<close>

theorem refresh_fallback_counterexample:
  "fst (getRefreshToken reread_fails) = Some ''r1'' \<and>
   fst (axios_post (snd (getRefreshToken reread_fails)) (API_BASE_URL @ ''/auth/refresh'')
          [(''refresh_token'', ''r1'')]) = Inr \<lparr>status = 200, data = Some (new_access ''a2'')\<rparr> \<and>
   fst (getRefreshToken (snd (axios_post (snd (getRefreshToken reread_fails))
          (API_BASE_URL @ ''/auth/refresh'') [(''refresh_token'', ''r1'')]))) = None \<and>
   secure (snd (response_rejected reread_fails (unauthorized profile_request))) ACCESS_TOKEN_KEY =
     Some ''a2'' \<and>
   secure (snd (response_rejected reread_fails (unauthorized profile_request))) REFRESH_TOKEN_KEY =
     Some [] \<and>
   secure (snd (response_rejected reread_fails (unauthorized profile_request))) REFRESH_TOKEN_KEY \<noteq>
     Some ''r1''"
  by (simp add: sample_defs refreshing_def reread_fails_def store_defs pipeline_defs)

text \<open>
  C5, amended. After a refresh call that succeeds with an \<^verbatim>\<open>access_token\<close> field \<open>a\<close>, and
  with the writes of the store not failing, the store holds the new access token \<open>a\<close>
  and, as refresh token, the value \<open>cur\<close> read back after the refresh call, or the empty
  string when that read returns absent. So the persisted refresh token is non-empty
  exactly when the second read returned a non-empty token, and the persisted access
  token is the one of the response, empty or not.
\<close>

theorem refresh_persists_pair:
  assumes "status_of err = Some 401" and "config err = Some cfg" and "\<not> retry cfg"
    and "getRefreshToken w = (Some t, w1)" and "t \<noteq> []"
    and "axios_post w1 (API_BASE_URL @ ''/auth/refresh'') [(''refresh_token'', t)] = (Inr resp, w2)"
    and "data resp = Some d" and "p_access_token d = Some a"
    and "getRefreshToken w2 = (cur, w3)"
    and "write_faults w = []"
  shows "secure (snd (response_rejected w err)) =
           (secure w)(ACCESS_TOKEN_KEY \<mapsto> a,
                      REFRESH_TOKEN_KEY \<mapsto> (case cur of None \<Rightarrow> [] | Some r \<Rightarrow> r))"
proof -
  have p: "transport Global w1 (refresh_request t) = (Inr resp, w2)"
    using assms(6) by (simp add: axios_post_refresh)
  note f1 = getRefreshToken_frame [OF assms(4)] and f2 = transport_frame [OF p]
    and f3 = getRefreshToken_frame [OF assms(9)]
  have wf: "write_faults w3 = []" and sec: "secure w3 = secure w"
    using f1 f2 f3 assms(10) by simp_all
  let ?w4 = "w3\<lparr>secure := (secure w3)(ACCESS_TOKEN_KEY \<mapsto> a, REFRESH_TOKEN_KEY \<mapsto> or_empty cur)\<rparr>"
  let ?c = "cfg\<lparr>retry := True, headers :=
              (headers cfg)(''Authorization'' \<mapsto> ''Bearer '' @ template (p_access_token d))\<rparr>"
  have "response_rejected w err = api ?w4 ?c"
    using response_rejected_refresh [OF assms(1-5) p] assms(7-9) setTokens_written [OF wf]
    by simp
  moreover have "secure (snd (api ?w4 ?c)) = secure ?w4"
    using api_retried_frame [of ?c ?w4 "fst (api ?w4 ?c)" "snd (api ?w4 ?c)"] by simp
  ultimately show ?thesis
    using sec by (simp add: or_empty_cases)
qed

theorem refresh_persists_pair_witness:
  "status_of (unauthorized profile_request) = Some 401 \<and>
   config (unauthorized profile_request) = Some profile_request \<and> \<not> retry profile_request \<and>
   fst (getRefreshToken refreshing) = Some ''r1'' \<and>
   write_faults refreshing = [] \<and>
   secure (snd (response_rejected refreshing (unauthorized profile_request))) =
     (secure refreshing)(ACCESS_TOKEN_KEY \<mapsto> ''a2'', REFRESH_TOKEN_KEY \<mapsto> ''r1'') \<and>
   fst (getRefreshToken reread_fails) = Some ''r1'' \<and>
   write_faults reread_fails = [] \<and>
   secure (snd (response_rejected reread_fails (unauthorized profile_request))) =
     (secure reread_fails)(ACCESS_TOKEN_KEY \<mapsto> ''a2'', REFRESH_TOKEN_KEY \<mapsto> [])"
proof -
  let ?u = "API_BASE_URL @ ''/auth/refresh''"
  let ?r = "\<lparr>status = 200, data = Some (new_access ''a2'')\<rparr>"
  let ?w2 = "refreshing\<lparr>wire := [(Global, refresh_request ''r1'')], net := [reply 200 None]\<rparr>"
  let ?v1 = "reread_fails\<lparr>read_faults := [True]\<rparr>"
  let ?v2 = "reread_fails\<lparr>read_faults := [True], wire := [(Global, refresh_request ''r1'')],
                net := [reply 200 None]\<rparr>"
  let ?v3 = "reread_fails\<lparr>read_faults := [], wire := [(Global, refresh_request ''r1'')],
                net := [reply 200 None]\<rparr>"
  have h: "status_of (unauthorized profile_request) = Some 401"
    "config (unauthorized profile_request) = Some profile_request" "\<not> retry profile_request"
    by (simp_all add: sample_defs refreshing_def reread_fails_def pipeline_defs)
  have a: "getRefreshToken refreshing = (Some ''r1'', refreshing)" "''r1'' \<noteq> []"
    "axios_post refreshing ?u [(''refresh_token'', ''r1'')] = (Inr ?r, ?w2)"
    "data ?r = Some (new_access ''a2'')" "p_access_token (new_access ''a2'') = Some ''a2''"
    "getRefreshToken ?w2 = (Some ''r1'', ?w2)" "write_faults refreshing = []"
    by (simp_all add: sample_defs refreshing_def reread_fails_def store_defs pipeline_defs refresh_request_def)
  have b: "getRefreshToken reread_fails = (Some ''r1'', ?v1)" "''r1'' \<noteq> []"
    "axios_post ?v1 ?u [(''refresh_token'', ''r1'')] = (Inr ?r, ?v2)"
    "data ?r = Some (new_access ''a2'')" "p_access_token (new_access ''a2'') = Some ''a2''"
    "getRefreshToken ?v2 = (None, ?v3)" "write_faults reread_fails = []"
    by (simp_all add: sample_defs refreshing_def reread_fails_def store_defs pipeline_defs refresh_request_def)
  show ?thesis
    using refresh_persists_pair [OF h a] refresh_persists_pair [OF h b] h a(1,7) b(1,7)
    by simp
qed

text \<open>
  C8. The refresh call goes out on the global axios instance, which has no
  interceptors. Whatever a call of \<open>api\<close> sends on that instance is a
  \<^verbatim>\<open>POST /auth/refresh\<close> with body \<^verbatim>\<open>{ refresh_token }\<close> and without an \<^verbatim>\<open>Authorization\<close>
  header, also when an access token is stored. When the reply to the refresh call is
  itself a 401, the handler consumes that one reply and sends nothing else: no second
  refresh call and no resubmission.
\<close>

theorem refresh_bypasses_interceptors:
  "(\<forall>(i, r) \<in> set (sent_since w (snd (api w cfg))). i = Global \<longrightarrow> is_refresh_call r) \<and>
   (status_of err = Some 401 \<and> config err = Some c \<and> \<not> retry c \<and>
    \<not> read_fails w \<and> secure w REFRESH_TOKEN_KEY = Some t \<and> t \<noteq> [] \<and>
    net w = Reply r401 # rest \<and> status r401 = 401 \<longrightarrow>
      sent_since w (snd (response_rejected w err)) =
        [(Global, \<lparr>http_method = POST, baseURL = [], url = API_BASE_URL @ ''/auth/refresh'',
                   headers = Map.empty, body = [(''refresh_token'', t)], retry = False\<rparr>)] \<and>
      net (snd (response_rejected w err)) = rest)"
proof (intro conjI impI)
  obtain c0 evs where s: "sent_since w (snd (api w cfg)) = (Api, c0) # evs" "handler_traffic evs"
    using api_sent by blast
  show "\<forall>(i, r) \<in> set (sent_since w (snd (api w cfg))). i = Global \<longrightarrow> is_refresh_call r"
    using s(1) handler_traffic_global [OF s(2)] by auto
next
  assume a: "status_of err = Some 401 \<and> config err = Some c \<and> \<not> retry c \<and>
    \<not> read_fails w \<and> secure w REFRESH_TOKEN_KEY = Some t \<and> t \<noteq> [] \<and>
    net w = Reply r401 # rest \<and> status r401 = 401"
  obtain w1 where r1: "getRefreshToken w = (Some t, w1)"
    using getRefreshToken_value [of w] a by (cases "getRefreshToken w") simp
  note f1 = getRefreshToken_frame [OF r1]
  let ?e = "\<lparr>config = Some (refresh_request t), response = Some r401\<rparr>"
  let ?w2 = "w1\<lparr>wire := wire w1 @ [(Global, refresh_request t)], net := rest\<rparr>"
  have p: "transport Global w1 (refresh_request t) = (Inl ?e, ?w2)"
    using a f1 by (simp add: transport_def Let_def)
  let ?e' = "err\<lparr>config := Some (c\<lparr>retry := True\<rparr>)\<rparr>"
  have rr: "response_rejected w err = refresh_failed ?w2 ?e'"
    using response_rejected_refresh [OF _ _ _ r1 _ p, of err c] a by simp
  from refresh_failed_frame [of ?w2 ?e' "fst (refresh_failed ?w2 ?e')" "snd (refresh_failed ?w2 ?e')"] f1 rr
  show "sent_since w (snd (response_rejected w err)) =
        [(Global, \<lparr>http_method = POST, baseURL = [], url = API_BASE_URL @ ''/auth/refresh'',
                   headers = Map.empty, body = [(''refresh_token'', t)], retry = False\<rparr>)]"
    and "net (snd (response_rejected w err)) = rest"
    by (simp_all add: sent_since_def refresh_request_def)
qed

theorem refresh_bypasses_interceptors_witness:
  "(Global, refresh_request ''r1'') \<in>
     set (sent_since rejecting_backend (snd (api rejecting_backend profile_request))) \<and>
   is_refresh_call (refresh_request ''r1'') \<and>
   headers (refresh_request ''r1'') ''Authorization'' = None \<and>
   secure rejecting_backend ACCESS_TOKEN_KEY = Some ''a1'' \<and>
   status_of (unauthorized profile_request) = Some 401 \<and>
   config (unauthorized profile_request) = Some profile_request \<and> \<not> retry profile_request \<and>
   \<not> read_fails (stored ''a1'' ''r1'' [reply 401 None, reply 200 None]) \<and>
   secure (stored ''a1'' ''r1'' [reply 401 None, reply 200 None]) REFRESH_TOKEN_KEY = Some ''r1'' \<and>
   net (stored ''a1'' ''r1'' [reply 401 None, reply 200 None]) = [reply 401 None, reply 200 None] \<and>
   sent_since (stored ''a1'' ''r1'' [reply 401 None, reply 200 None])
     (snd (response_rejected (stored ''a1'' ''r1'' [reply 401 None, reply 200 None])
        (unauthorized profile_request))) = [(Global, refresh_request ''r1'')] \<and>
   net (snd (response_rejected (stored ''a1'' ''r1'' [reply 401 None, reply 200 None])
        (unauthorized profile_request))) = [reply 200 None]"
proof -
  let ?w = "stored ''a1'' ''r1'' [reply 401 None, reply 200 None]"
  have m: "(Global, refresh_request ''r1'') \<in>
     set (sent_since rejecting_backend (snd (api rejecting_backend profile_request)))"
    by (simp add: sample_defs rejecting_backend_def store_defs pipeline_defs refresh_request_def)
  have h: "status_of (unauthorized profile_request) = Some 401 \<and>
      config (unauthorized profile_request) = Some profile_request \<and> \<not> retry profile_request \<and>
      \<not> read_fails ?w \<and> secure ?w REFRESH_TOKEN_KEY = Some ''r1'' \<and> ''r1'' \<noteq> [] \<and>
      net ?w = Reply \<lparr>status = 401, data = None\<rparr> # [reply 200 None] \<and>
      status \<lparr>status = 401, data = None\<rparr> = 401"
    by (simp add: sample_defs rejecting_backend_def store_defs pipeline_defs)
  have s: "secure rejecting_backend ACCESS_TOKEN_KEY = Some ''a1''"
    by (simp add: sample_defs rejecting_backend_def store_defs)
  note t = refresh_bypasses_interceptors [of ?w profile_request
      "unauthorized profile_request" profile_request "''r1''" "\<lparr>status = 401, data = None\<rparr>"
      "[reply 200 None]"]
  from refresh_bypasses_interceptors [of rejecting_backend profile_request] m have a: "is_refresh_call (refresh_request ''r1'')"
    by blast
  from t h have b: "sent_since ?w (snd (response_rejected ?w (unauthorized profile_request))) =
        [(Global, refresh_request ''r1'')]"
    "net (snd (response_rejected ?w (unauthorized profile_request))) = [reply 200 None]"
    by (simp_all add: refresh_request_def)
  from a have c: "headers (refresh_request ''r1'') ''Authorization'' = None"
    by (simp add: is_refresh_call_def)
  show ?thesis using m a b c h s by (simp add: reply_def)
qed

text \<open>
  C1. A request whose response is a 401 and that carries the retry marker is
  rejected by the handler as it is, with the world untouched: no refresh call, no
  resubmission, no change to the store. So a call of \<open>api\<close> with an unmarked request
  makes at most one refresh call and at most one resubmission, and a marked request is
  sent once, its failure being the value the caller gets.
\<close>

theorem single_retry:
  "(status_of err = Some 401 \<and> retry_of (config err) \<longrightarrow>
      response_rejected w err = (Inl (AxiosError err), w)) \<and>
   (\<not> retry cfg \<longrightarrow>
      refresh_calls (sent_since w (snd (api w cfg))) \<le> 1 \<and>
      resubmissions (sent_since w (snd (api w cfg))) \<le> 1) \<and>
   (retry cfg \<longrightarrow>
      sent_since w (snd (api w cfg)) = [(Api, fst (request_interceptor w cfg))] \<and>
      (\<forall>e. fst (transport Api (snd (request_interceptor w cfg)) (fst (request_interceptor w cfg))) = Inl e
           \<longrightarrow> fst (api w cfg) = Inl (AxiosError e)))"
proof (intro conjI impI allI)
  assume "status_of err = Some 401 \<and> retry_of (config err)"
  then show "response_rejected w err = (Inl (AxiosError err), w)"
    by (simp add: response_rejected_final)
next
  assume nr: "\<not> retry cfg"
  obtain evs where s: "sent_since w (snd (api w cfg)) = (Api, fst (request_interceptor w cfg)) # evs"
      "handler_traffic evs"
    using api_sent by blast
  from handler_traffic_counts [OF s(2)] s(1) nr
  show "refresh_calls (sent_since w (snd (api w cfg))) \<le> 1"
    and "resubmissions (sent_since w (snd (api w cfg))) \<le> 1"
    by (simp_all add: refresh_calls_def resubmissions_def request_interceptor_fields)
next
  assume r: "retry cfg"
  from api_retried_frame [OF r, of w "fst (api w cfg)" "snd (api w cfg)"]
  show "sent_since w (snd (api w cfg)) = [(Api, fst (request_interceptor w cfg))]"
    by (simp add: sent_since_def)
next
  fix e
  assume r: "retry cfg"
    and "fst (transport Api (snd (request_interceptor w cfg)) (fst (request_interceptor w cfg))) = Inl e"
  then show "fst (api w cfg) = Inl (AxiosError e)"
    by (auto simp: api_retried split: prod.splits sum.splits)
qed

theorem single_retry_witness:
  "status_of (unauthorized (profile_request\<lparr>retry := True\<rparr>)) = Some 401 \<and>
   retry_of (config (unauthorized (profile_request\<lparr>retry := True\<rparr>))) \<and>
   response_rejected rejecting_backend (unauthorized (profile_request\<lparr>retry := True\<rparr>)) =
     (Inl (AxiosError (unauthorized (profile_request\<lparr>retry := True\<rparr>))), rejecting_backend) \<and>
   \<not> retry profile_request \<and>
   refresh_calls (sent_since rejecting_backend (snd (api rejecting_backend profile_request))) = 1 \<and>
   resubmissions (sent_since rejecting_backend (snd (api rejecting_backend profile_request))) = 1 \<and>
   fst (api rejecting_backend profile_request) =
     Inl (AxiosError (unauthorized (profile_request\<lparr>retry := True,
        headers := (headers profile_request)(''Authorization'' \<mapsto> ''Bearer a2'')\<rparr>))) \<and>
   retry (profile_request\<lparr>retry := True\<rparr>) \<and>
   sent_since (blank [reply 401 None])
     (snd (api (blank [reply 401 None]) (profile_request\<lparr>retry := True\<rparr>))) =
     [(Api, profile_request\<lparr>retry := True\<rparr>)] \<and>
   fst (api (blank [reply 401 None]) (profile_request\<lparr>retry := True\<rparr>)) =
     Inl (AxiosError (unauthorized (profile_request\<lparr>retry := True\<rparr>)))"
proof -
  let ?e = "unauthorized (profile_request\<lparr>retry := True\<rparr>)"
  let ?c = "profile_request\<lparr>retry := True\<rparr>"
  let ?b = "blank [reply 401 None]"
  have h1: "status_of ?e = Some 401 \<and> retry_of (config ?e)"
    by (simp add: sample_defs rejecting_backend_def pipeline_defs)
  have h2: "\<not> retry profile_request" "retry ?c"
    by (simp_all add: sample_defs rejecting_backend_def pipeline_defs)
  have h3: "fst (request_interceptor ?b ?c) = ?c"
    "fst (transport Api (snd (request_interceptor ?b ?c)) (fst (request_interceptor ?b ?c))) = Inl ?e"
    by (simp_all add: sample_defs rejecting_backend_def pipeline_defs store_defs)
  have n: "refresh_calls (sent_since rejecting_backend (snd (api rejecting_backend profile_request))) \<noteq> 0"
    "resubmissions (sent_since rejecting_backend (snd (api rejecting_backend profile_request))) \<noteq> 0"
    by (simp_all add: sample_defs rejecting_backend_def pipeline_defs store_defs refresh_calls_def resubmissions_def)
  have v: "fst (api rejecting_backend profile_request) =
     Inl (AxiosError (unauthorized (profile_request\<lparr>retry := True,
        headers := (headers profile_request)(''Authorization'' \<mapsto> ''Bearer a2'')\<rparr>)))"
    by (simp add: sample_defs rejecting_backend_def pipeline_defs store_defs)
  from single_retry [of ?e rejecting_backend profile_request] h1 h2(1) n
  have a: "response_rejected rejecting_backend ?e = (Inl (AxiosError ?e), rejecting_backend)"
    "refresh_calls (sent_since rejecting_backend (snd (api rejecting_backend profile_request))) = 1"
    "resubmissions (sent_since rejecting_backend (snd (api rejecting_backend profile_request))) = 1"
    by auto
  from single_retry [of ?e ?b ?c] h2(2) h3
  have b: "sent_since ?b (snd (api ?b ?c)) = [(Api, ?c)]" "fst (api ?b ?c) = Inl (AxiosError ?e)"
    by auto
  show ?thesis using h1 h2 a b v by simp
qed

section \<open>Properties of the session manager\<close>

text \<open>
  C6. \<open>login\<close> calls \<open>AuthAPI_login\<close> once. When that call succeeds with payload \<open>d\<close>, the
  store holds the access and refresh tokens of \<open>d\<close>, and the session user is the user of
  \<open>d\<close>. When it fails with \<open>e\<close>, \<open>login\<close> fails with the same \<open>e\<close> and the session is as it
  was. In both cases the login request is submitted once by this layer: one unmarked
  request on \<^verbatim>\<open>api\<close>, the \<^verbatim>\<open>POST /auth/login\<close> with the email and the password; a
  resubmission can only come from the response interceptor below.
\<close>

theorem login_outcome:
  "(AuthAPI_login w email password = (Inr d, w') \<longrightarrow>
      login w s email password = (Inr (), w', setUser (p_user d) s) \<and>
      user (setUser (p_user d) s) = p_user d \<and>
      isAuthenticated (setUser (p_user d) s) = (p_user d \<noteq> None) \<and>
      p_access_token d \<noteq> None \<and> secure w' ACCESS_TOKEN_KEY = p_access_token d \<and>
      p_refresh_token d \<noteq> None \<and> secure w' REFRESH_TOKEN_KEY = p_refresh_token d) \<and>
   (AuthAPI_login w email password = (Inl e, w') \<longrightarrow>
      login w s email password = (Inl e, w', s)) \<and>
   submissions (sent_since w (fst (snd (login w s email password)))) = 1 \<and>
   first_sent w (fst (snd (login w s email password))) =
     Some (Api, POST, ''/auth/login'', [(''email'', email), (''password'', password)])"
proof (intro conjI impI)
  assume ok: "AuthAPI_login w email password = (Inr d, w')"
  then show "login w s email password = (Inr (), w', setUser (p_user d) s)"
    by (simp add: login_def)
  show "user (setUser (p_user d) s) = p_user d"
    and "isAuthenticated (setUser (p_user d) s) = (p_user d \<noteq> None)"
    by (simp_all add: setUser_def isAuthenticated_def)
  from ok obtain w1 u where "setTokens w1 (p_access_token d) (p_refresh_token d) = (Inr u, w')"
    by (auto simp: AuthAPI_login_def split: prod.splits sum.splits option.splits)
  from setTokens_success [OF this]
  show "p_access_token d \<noteq> None" and "secure w' ACCESS_TOKEN_KEY = p_access_token d"
    and "p_refresh_token d \<noteq> None" and "secure w' REFRESH_TOKEN_KEY = p_refresh_token d"
    by simp_all
next
  assume "AuthAPI_login w email password = (Inl e, w')"
  then show "login w s email password = (Inl e, w', s)"
    by (simp add: login_def)
next
  have "fst (snd (login w s email password)) = snd (AuthAPI_login w email password)"
    by (simp add: login_def split: prod.splits sum.splits)
  then show "submissions (sent_since w (fst (snd (login w s email password)))) = 1"
    using api_submissions [of "api_config POST ''/auth/login'' [(''email'', email), (''password'', password)]" w]
    by (simp add: sent_since_def AuthAPI_login_wire api_post_def api_config_def)
next
  have "wire (fst (snd (login w s email password))) =
        wire (snd (api w (api_config POST ''/auth/login'' [(''email'', email), (''password'', password)])))"
    using AuthAPI_login_wire [of w email password]
    by (auto simp: login_def api_post_def split: prod.splits sum.splits)
  from first_sent_wire [OF this, of w]
    api_first_sent [of w w "api_config POST ''/auth/login'' [(''email'', email), (''password'', password)]"]
  show "first_sent w (fst (snd (login w s email password))) =
     Some (Api, POST, ''/auth/login'', [(''email'', email), (''password'', password)])"
    by (simp add: api_config_def)
qed

theorem login_outcome_witness:
  "AuthAPI_login (blank [reply 200 (Some auth_payload)]) ''u@x.com'' ''pw'' =
     (Inr auth_payload,
      (blank [])\<lparr>secure := [ACCESS_TOKEN_KEY \<mapsto> ''a1'', REFRESH_TOKEN_KEY \<mapsto> ''r1''],
        wire := [(Api, api_config POST ''/auth/login'' [(''email'', ''u@x.com''), (''password'', ''pw'')])]\<rparr>) \<and>
   user (snd (snd (login (blank [reply 200 (Some auth_payload)]) initial_session ''u@x.com'' ''pw''))) =
     Some sample_user \<and>
   secure (fst (snd (login (blank [reply 200 (Some auth_payload)]) initial_session ''u@x.com'' ''pw'')))
     ACCESS_TOKEN_KEY = Some ''a1'' \<and>
   secure (fst (snd (login (blank [reply 200 (Some auth_payload)]) initial_session ''u@x.com'' ''pw'')))
     REFRESH_TOKEN_KEY = Some ''r1'' \<and>
   fst (AuthAPI_login (blank [reply 401 None]) ''u@x.com'' ''bad'') =
     Inl (AxiosError (unauthorized
       ((api_config POST ''/auth/login'' [(''email'', ''u@x.com''), (''password'', ''bad'')])\<lparr>retry := True\<rparr>))) \<and>
   fst (login (blank [reply 401 None]) initial_session ''u@x.com'' ''bad'') =
     Inl (AxiosError (unauthorized
       ((api_config POST ''/auth/login'' [(''email'', ''u@x.com''), (''password'', ''bad'')])\<lparr>retry := True\<rparr>))) \<and>
   snd (snd (login (blank [reply 401 None]) initial_session ''u@x.com'' ''bad'')) = initial_session \<and>
   submissions (sent_since (blank [reply 401 None])
     (fst (snd (login (blank [reply 401 None]) initial_session ''u@x.com'' ''bad'')))) = 1"
proof -
  let ?w = "blank [reply 200 (Some auth_payload)]"
  let ?w' = "(blank [])\<lparr>secure := [ACCESS_TOKEN_KEY \<mapsto> ''a1'', REFRESH_TOKEN_KEY \<mapsto> ''r1''],
        wire := [(Api, api_config POST ''/auth/login'' [(''email'', ''u@x.com''), (''password'', ''pw'')])]\<rparr>"
  let ?v = "blank [reply 401 None]"
  let ?e = "AxiosError (unauthorized
       ((api_config POST ''/auth/login'' [(''email'', ''u@x.com''), (''password'', ''bad'')])\<lparr>retry := True\<rparr>))"
  have ok: "AuthAPI_login ?w ''u@x.com'' ''pw'' = (Inr auth_payload, ?w')"
    by (simp add: sample_defs store_defs pipeline_defs AuthAPI_login_def api_post_def auth_payload_def)
  let ?v' = "(blank [])\<lparr>wire :=
      [(Api, api_config POST ''/auth/login'' [(''email'', ''u@x.com''), (''password'', ''bad'')])]\<rparr>"
  have bad: "AuthAPI_login ?v ''u@x.com'' ''bad'' = (Inl ?e, ?v')"
    by (simp add: sample_defs store_defs pipeline_defs AuthAPI_login_def api_post_def auth_payload_def)
  from login_outcome [of ?w "''u@x.com''" "''pw''" auth_payload ?w' initial_session] ok
  have a: "login ?w initial_session ''u@x.com'' ''pw'' =
      (Inr (), ?w', setUser (p_user auth_payload) initial_session)"
    "user (setUser (p_user auth_payload) initial_session) = p_user auth_payload"
    "secure ?w' ACCESS_TOKEN_KEY = p_access_token auth_payload"
    "secure ?w' REFRESH_TOKEN_KEY = p_refresh_token auth_payload"
    by (simp_all add: auth_payload_def ACCESS_TOKEN_KEY_def REFRESH_TOKEN_KEY_def)
  from login_outcome [of ?v "''u@x.com''" "''bad''" auth_payload ?v' initial_session ?e] bad
  have b: "login ?v initial_session ''u@x.com'' ''bad'' = (Inl ?e, ?v', initial_session)"
    by simp
  from login_outcome [of ?v "''u@x.com''" "''bad''" auth_payload ?v' initial_session ?e]
  have c: "submissions (sent_since ?v (fst (snd (login ?v initial_session ''u@x.com'' ''bad'')))) = 1"
    by simp
  show ?thesis
    using ok bad a b c by (simp add: auth_payload_def)
qed

text \<open>
  The response interceptor below this layer still applies to the login request: with a
  refresh token left in the store, a 401 to the login is followed by a refresh call and
  one marked resubmission of the login.
\<close>

lemma login_below_this_layer:
  "map fst (sent_since (stored ''a0'' ''r0'' [reply 401 None, reply 200 (Some (new_access ''a2'')), reply 401 None])
     (fst (snd (login (stored ''a0'' ''r0'' [reply 401 None, reply 200 (Some (new_access ''a2'')), reply 401 None])
        initial_session ''u@x.com'' ''bad'')))) = [Api, Global, Api] \<and>
   submissions (sent_since (stored ''a0'' ''r0'' [reply 401 None, reply 200 (Some (new_access ''a2'')), reply 401 None])
     (fst (snd (login (stored ''a0'' ''r0'' [reply 401 None, reply 200 (Some (new_access ''a2'')), reply 401 None])
        initial_session ''u@x.com'' ''bad'')))) = 1"
  by (simp add: sample_defs store_defs pipeline_defs AuthAPI_login_def api_post_def login_def
      submissions_def)

text \<open>
  C3. \<open>logout\<close> is to end with the stored credentials cleared and the session user
  absent, also when the remote \<^verbatim>\<open>POST /auth/logout\<close> throws a network error, the failure
  being swallowed. The code clears the credentials in the \<^verbatim>\<open>finally\<close> block of
  \<^verbatim>\<open>AuthAPI.logout\<close>, which has no \<^verbatim>\<open>catch\<close>: the error leaves the function and
  \<^verbatim>\<open>setUser(null)\<close> is not reached. With the network down for a signed-in user, both
  tokens are deleted, \<open>logout\<close> rejects with the network error, and the session user
  stays present. A second \<open>logout\<close> from that state goes out without a bearer token, is
  answered with 401, and rejects again with the user still present.
\<close>

theorem logout_network_error:
  "fst (api_post offline ''/auth/logout'' []) =
     Inl (AxiosError \<lparr>config = Some logout_request, response = None\<rparr>) \<and>
   fst (logout offline signed_in) =
     Inl (AxiosError \<lparr>config = Some logout_request, response = None\<rparr>) \<and>
   secure (fst (snd (logout offline signed_in))) ACCESS_TOKEN_KEY = None \<and>
   secure (fst (snd (logout offline signed_in))) REFRESH_TOKEN_KEY = None \<and>
   user (snd (snd (logout offline signed_in))) = Some sample_user \<and>
   isAuthenticated (snd (snd (logout offline signed_in))) \<and>
   fst (logout (fst (snd (logout offline signed_in))) (snd (snd (logout offline signed_in)))) =
     Inl (AxiosError (unauthorized ((api_config POST ''/auth/logout'' [])\<lparr>retry := True\<rparr>))) \<and>
   isAuthenticated
     (snd (snd (logout (fst (snd (logout offline signed_in))) (snd (snd (logout offline signed_in))))))"
proof -
  let ?e = "AxiosError \<lparr>config = Some logout_request, response = None\<rparr>"
  let ?w1 = "\<lparr>secure = Map.empty, read_faults = [], write_faults = [], delete_faults = [],
              net = [reply 401 None], wire = [(Api, logout_request)]\<rparr>"
  have p: "fst (api_post offline ''/auth/logout'' []) = Inl ?e"
    by (simp add: offline_def logout_request_def sample_defs store_defs pipeline_defs api_post_def)
  have first: "logout offline signed_in = (Inl ?e, ?w1, signed_in)"
    by (simp add: offline_def logout_request_def signed_in_def sample_defs store_defs
        pipeline_defs api_post_def AuthAPI_logout_def logout_def fun_eq_iff)
  have second: "fst (logout ?w1 signed_in) =
      Inl (AxiosError (unauthorized ((api_config POST ''/auth/logout'' [])\<lparr>retry := True\<rparr>)))"
    "snd (snd (logout ?w1 signed_in)) = signed_in"
    by (simp_all add: logout_request_def signed_in_def sample_defs store_defs
        pipeline_defs api_post_def AuthAPI_logout_def logout_def)
  have u: "user signed_in = Some sample_user" "isAuthenticated signed_in"
    by (simp_all add: signed_in_def isAuthenticated_def)
  show ?thesis
    using p first second u by simp
qed

text \<open>
  The paths of \<open>logout\<close> in general, with the deletes of the store not failing: both
  stored tokens are cleared on every path; a failure of the remote call is the failure
  of \<open>logout\<close>; only when the remote call succeeds is the session user set to absent.
\<close>

lemma logout_paths:
  assumes "delete_faults w = []"
  shows "secure (fst (snd (logout w s))) ACCESS_TOKEN_KEY = None \<and>
         secure (fst (snd (logout w s))) REFRESH_TOKEN_KEY = None \<and>
         (\<forall>e. fst (api_post w ''/auth/logout'' []) = Inl e \<longrightarrow>
              fst (logout w s) = Inl e \<and> snd (snd (logout w s)) = s) \<and>
         (\<forall>r. fst (api_post w ''/auth/logout'' []) = Inr r \<longrightarrow>
              fst (logout w s) = Inr () \<and> user (snd (snd (logout w s))) = None \<and>
              \<not> isAuthenticated (snd (snd (logout w s))))"
proof -
  obtain r w1 where a: "api_post w ''/auth/logout'' [] = (r, w1)"
    by (cases "api_post w ''/auth/logout'' []")
  have "delete_faults w1 = []"
    using api_frame [OF a [unfolded api_post_def]] assms by simp
  then have "AuthAPI_logout w =
      (case r of Inl e \<Rightarrow> Inl e | Inr _ \<Rightarrow> Inr (),
       w1\<lparr>secure := (secure w1)(ACCESS_TOKEN_KEY := None, REFRESH_TOKEN_KEY := None)\<rparr>)"
    using a by (simp add: AuthAPI_logout_def clearTokens_ok split: sum.splits)
  then show ?thesis
    using a by (auto simp: logout_def setUser_def isAuthenticated_def split: sum.splits)
qed

text \<open>
  C7. The startup check. In every run \<^verbatim>\<open>setIsLoading(false)\<close> is called exactly once, as
  the last update, and \<open>isLoading\<close> ends false. With no stored access token (absent,
  empty, or the read fails) nothing else happens. With a token, the first request on
  the wire is \<^verbatim>\<open>GET /auth/me\<close> on \<^verbatim>\<open>api\<close>. With a token and a profile reply
  carrying a body, the session user is the user of that body. With a token and a
  profile fetch that fails (an error, or a reply without a body), and the deletes of
  the store not failing, both stored tokens are cleared and the session user is
  absent.
\<close>

theorem checkAuth_outcome:
  "\<not> isLoading (snd (snd (checkAuth w s))) \<and>
   loading_updates (updates_since s (snd (snd (checkAuth w s)))) = [SetIsLoading False] \<and>
   last (updates (snd (snd (checkAuth w s)))) = SetIsLoading False \<and>
   (\<not> truthy (fst (getAccessToken w)) \<longrightarrow>
      fst (checkAuth w s) = Inr () \<and> user (snd (snd (checkAuth w s))) = user s \<and>
      secure (fst (snd (checkAuth w s))) = secure w \<and> wire (fst (snd (checkAuth w s))) = wire w) \<and>
   (truthy (fst (getAccessToken w)) \<longrightarrow>
      first_sent w (fst (snd (checkAuth w s))) = Some (Api, GET, ''/auth/me'', [])) \<and>
   (truthy (fst (getAccessToken w)) \<and>
    AuthAPI_getProfile (snd (getAccessToken w)) = (Inr (Some p), w2) \<longrightarrow>
      fst (checkAuth w s) = Inr () \<and> fst (snd (checkAuth w s)) = w2 \<and>
      user (snd (snd (checkAuth w s))) = p_user p) \<and>
   (truthy (fst (getAccessToken w)) \<and>
    (\<forall>p. fst (AuthAPI_getProfile (snd (getAccessToken w))) \<noteq> Inr (Some p)) \<and>
    delete_faults w = [] \<longrightarrow>
      fst (checkAuth w s) = Inr () \<and> user (snd (snd (checkAuth w s))) = None \<and>
      secure (fst (snd (checkAuth w s))) ACCESS_TOKEN_KEY = None \<and>
      secure (fst (snd (checkAuth w s))) REFRESH_TOKEN_KEY = None)"
proof -
  obtain token w1 where g: "getAccessToken w = (token, w1)"
    by (cases "getAccessToken w")
  note fg = getAccessToken_frame [OF g]
  obtain r w2' where pr: "AuthAPI_getProfile w1 = (r, w2')"
    by (cases "AuthAPI_getProfile w1")
  note fp = AuthAPI_getProfile_frame [OF pr]
  obtain x w3 where c: "clearTokens w2' = (x, w3)"
    by (cases "clearTokens w2'")
  have fetch: "first_sent w (fst (snd (checkAuth w s))) = Some (Api, GET, ''/auth/me'', [])"
    if "truthy token"
  proof -
    have "wire (fst (snd (checkAuth w s))) = wire w2'"
      using g pr c clearTokens_frame [OF c] that
      by (auto simp: checkAuth_def split: sum.splits option.splits)
    from first_sent_wire [OF this, of w] AuthAPI_getProfile_first_sent [of w w1] fg pr
    show ?thesis by simp
  qed
  show ?thesis
  proof (cases "truthy token")
    case False
    then have "checkAuth w s = (Inr (), w1, setIsLoading False s)"
      using g by (simp add: checkAuth_def)
    then show ?thesis
      using g fg False finish_updates [of s s "[]"]
      by (simp add: setIsLoading_def loading_updates_def)
  next
    case True
    show ?thesis
    proof (cases "\<exists>q. r = Inr (Some q)")
      case ok: True
      then obtain q where q: "r = Inr (Some q)" by blast
      have "checkAuth w s = (Inr (), w2', setIsLoading False (setUser (p_user q) s))"
        using g True pr q by (simp add: checkAuth_def)
      then show ?thesis
        using g True pr q finish_updates [of "setUser (p_user q) s" s "[SetUser (p_user q)]"]
          fetch [OF True]
        by (auto simp: setUser_def setIsLoading_def loading_updates_def)
    next
      case bad: False
      have ca: "checkAuth w s =
          (case x of Inl e \<Rightarrow> (Inl e, w3, setIsLoading False s)
           | Inr _ \<Rightarrow> (Inr (), w3, setIsLoading False (setUser None s)))"
        using g True pr bad c
        by (cases r) (auto simp: checkAuth_def split: option.splits sum.splits)
      have upd: "loading_updates (updates_since s (snd (snd (checkAuth w s)))) = [SetIsLoading False] \<and>
          last (updates (snd (snd (checkAuth w s)))) = SetIsLoading False \<and>
          \<not> isLoading (snd (snd (checkAuth w s)))"
        using ca finish_updates [of s s "[]"] finish_updates [of "setUser None s" s "[SetUser None]"]
        by (cases x) (simp_all add: setUser_def loading_updates_def)
      have cleared: "fst (checkAuth w s) = Inr () \<and> user (snd (snd (checkAuth w s))) = None \<and>
          secure (fst (snd (checkAuth w s))) ACCESS_TOKEN_KEY = None \<and>
          secure (fst (snd (checkAuth w s))) REFRESH_TOKEN_KEY = None"
        if "delete_faults w = []"
      proof -
        have "delete_faults w2' = []" using that fg fp by simp
        from clearTokens_ok [OF this] c ca show ?thesis
          by (auto simp: setUser_def setIsLoading_def)
      qed
      show ?thesis
        using upd cleared g True pr bad fetch [OF True] by auto
    qed
  qed
qed

theorem checkAuth_outcome_witness:
  "\<not> truthy (fst (getAccessToken (blank []))) \<and>
   checkAuth (blank []) initial_session =
     (Inr (), blank [], \<lparr>user = None, isLoading = False, updates = [SetIsLoading False]\<rparr>) \<and>
   truthy (fst (getAccessToken (stored ''a1'' ''r1'' [reply 200 (Some profile_payload)]))) \<and>
   fst (AuthAPI_getProfile (snd (getAccessToken (stored ''a1'' ''r1'' [reply 200 (Some profile_payload)])))) =
     Inr (Some profile_payload) \<and>
   user (snd (snd (checkAuth (stored ''a1'' ''r1'' [reply 200 (Some profile_payload)]) initial_session))) =
     Some sample_user \<and>
   updates (snd (snd (checkAuth (stored ''a1'' ''r1'' [reply 200 (Some profile_payload)]) initial_session))) =
     [SetUser (Some sample_user), SetIsLoading False] \<and>
   truthy (fst (getAccessToken (stored ''a1'' ''r1'' [reply 500 None]))) \<and>
   fst (AuthAPI_getProfile (snd (getAccessToken (stored ''a1'' ''r1'' [reply 500 None])))) =
     Inl (AxiosError \<lparr>config = Some (profile_request\<lparr>headers :=
        (headers profile_request)(''Authorization'' \<mapsto> ''Bearer a1'')\<rparr>),
        response = Some \<lparr>status = 500, data = None\<rparr>\<rparr>) \<and>
   delete_faults (stored ''a1'' ''r1'' [reply 500 None]) = [] \<and>
   user (snd (snd (checkAuth (stored ''a1'' ''r1'' [reply 500 None]) signed_in))) = None \<and>
   secure (fst (snd (checkAuth (stored ''a1'' ''r1'' [reply 500 None]) signed_in))) ACCESS_TOKEN_KEY = None \<and>
   secure (fst (snd (checkAuth (stored ''a1'' ''r1'' [reply 500 None]) signed_in))) REFRESH_TOKEN_KEY = None \<and>
   \<not> isLoading (snd (snd (checkAuth (stored ''a1'' ''r1'' [reply 500 None]) signed_in))) \<and>
   loading_updates (updates_since signed_in
     (snd (snd (checkAuth (stored ''a1'' ''r1'' [reply 500 None]) signed_in)))) = [SetIsLoading False]"
proof -
  let ?w = "stored ''a1'' ''r1'' [reply 200 (Some profile_payload)]"
  let ?v = "stored ''a1'' ''r1'' [reply 500 None]"
  let ?e = "AxiosError \<lparr>config = Some (profile_request\<lparr>headers :=
        (headers profile_request)(''Authorization'' \<mapsto> ''Bearer a1'')\<rparr>),
        response = Some \<lparr>status = 500, data = None\<rparr>\<rparr>"
  have h1: "\<not> truthy (fst (getAccessToken (blank [])))"
    by (simp add: sample_defs store_defs)
  have r1: "checkAuth (blank []) initial_session =
     (Inr (), blank [], \<lparr>user = None, isLoading = False, updates = [SetIsLoading False]\<rparr>)"
    by (simp add: sample_defs store_defs AuthAPI_getProfile_def api_get_def checkAuth_def setUser_def setIsLoading_def
        initial_session_def profile_payload_def signed_in_def)
  have h2: "truthy (fst (getAccessToken ?w))"
    "fst (AuthAPI_getProfile (snd (getAccessToken ?w))) = Inr (Some profile_payload)"
    by (simp_all add: sample_defs store_defs pipeline_defs AuthAPI_getProfile_def api_get_def checkAuth_def setUser_def setIsLoading_def
        initial_session_def profile_payload_def signed_in_def)
  have h2': "AuthAPI_getProfile (snd (getAccessToken ?w)) =
       (Inr (Some profile_payload), snd (AuthAPI_getProfile (snd (getAccessToken ?w))))"
    using h2(2) by (metis prod.collapse)
  have pu: "p_user profile_payload = Some sample_user"
    by (simp add: profile_payload_def)
  have u2: "updates (snd (snd (checkAuth ?w initial_session))) =
     [SetUser (Some sample_user), SetIsLoading False]"
    by (simp add: sample_defs store_defs pipeline_defs AuthAPI_getProfile_def api_get_def checkAuth_def setUser_def setIsLoading_def
        initial_session_def profile_payload_def signed_in_def)
  have h3: "truthy (fst (getAccessToken ?v))"
    "fst (AuthAPI_getProfile (snd (getAccessToken ?v))) = Inl ?e" "delete_faults ?v = []"
    by (simp_all add: sample_defs store_defs pipeline_defs AuthAPI_getProfile_def api_get_def checkAuth_def setUser_def setIsLoading_def
        initial_session_def profile_payload_def signed_in_def)
  from checkAuth_outcome [of ?w initial_session profile_payload
      "snd (AuthAPI_getProfile (snd (getAccessToken ?w)))" ] h2(1) h2'
  have a: "user (snd (snd (checkAuth ?w initial_session))) = p_user profile_payload"
    by blast
  from checkAuth_outcome [of ?v signed_in profile_payload ?v] h3
  have b: "user (snd (snd (checkAuth ?v signed_in))) = None"
    "secure (fst (snd (checkAuth ?v signed_in))) ACCESS_TOKEN_KEY = None"
    "secure (fst (snd (checkAuth ?v signed_in))) REFRESH_TOKEN_KEY = None"
    "\<not> isLoading (snd (snd (checkAuth ?v signed_in)))"
    "loading_updates (updates_since signed_in (snd (snd (checkAuth ?v signed_in)))) = [SetIsLoading False]"
    by simp_all
  show ?thesis
    using h1 r1 h2 u2 h3 a b pu by simp
qed

end
